theory Spec2Isabelle
  imports Complex_Main "HOL-Library.Char_ord" "HOL-Library.List_Lexorder" "HOL-Library.AList"
begin

section \<open>Python values used by \<^verbatim>\<open>backend/server.py\<close>\<close>

subsection \<open>Floats\<close>

text \<open>
  A Python \<^verbatim>\<open>float\<close> is an IEEE-754 binary64 number.  Its finite values are kept as
  the real number they denote; every arithmetic operation computes the exact real result
  and rounds it to the nearest binary64 value, ties to even, as the hardware does.  The
  two infinities and NaN are values of their own.  The sign of zero is not kept: Python
  compares \<^verbatim>\<open>-0.0 == 0.0\<close> as equal and no operation of the program tells them apart.

  \<open>round_half_even\<close> rounds a real to the nearest integer, ties to the even one.
  \<open>binade x\<close> is the binary exponent of a positive real: \<open>2 powi binade x \<le> x < 2 powi (binade x + 1)\<close>.
  \<open>round_binary64\<close> rounds to a multiple of \<open>2 powi ulp_exp x\<close>: 53 significant bits, with
  the subnormal spacing \<open>2 powi (- 1074)\<close> at the bottom of the range and no upper bound;
  \<open>rnd\<close> adds the overflow to infinity above the largest finite double.
\<close>

definition round_half_even :: "real \<Rightarrow> int" where
  "round_half_even x =
     (let f = \<lfloor>x\<rfloor>; d = x - of_int f
      in if d < 1 / 2 then f else if 1 / 2 < d then f + 1 else if even f then f else f + 1)"

lemma binade_measure_halve:
  fixes x :: real
  assumes "2 \<le> x"
  shows "nat \<bar>\<lfloor>log 2 (x / 2)\<rfloor>\<bar> < nat \<bar>\<lfloor>log 2 x\<rfloor>\<bar>"
proof -
  have "log 2 (x / 2) = log 2 x - 1" using assms by (simp add: log_divide)
  moreover have "1 \<le> log 2 x" using assms by (simp add: le_log_iff)
  ultimately show ?thesis by simp
qed

lemma binade_measure_double:
  fixes x :: real
  assumes "0 < x" "x < 1"
  shows "nat \<bar>\<lfloor>log 2 (2 * x)\<rfloor>\<bar> < nat \<bar>\<lfloor>log 2 x\<rfloor>\<bar>"
proof -
  have "log 2 (2 * x) = log 2 x + 1" using assms by (simp add: log_mult)
  then have "\<lfloor>log 2 (2 * x)\<rfloor> = \<lfloor>log 2 x\<rfloor> + 1" by simp
  moreover have "\<lfloor>log 2 x\<rfloor> \<le> - 1" using assms by (simp add: floor_le_iff)
  ultimately show ?thesis by linarith
qed

function binade :: "real \<Rightarrow> int" where
  "binade x = (if x \<le> 0 then 0
               else if 2 \<le> x then binade (x / 2) + 1
               else if x < 1 then binade (2 * x) - 1
               else 0)"
  by pat_completeness auto
termination
proof (relation "measure (\<lambda>x. nat \<bar>\<lfloor>log 2 x\<rfloor>\<bar>)", goal_cases)
  case 1
  show ?case by simp
next
  case (2 x)
  then show ?case using binade_measure_halve [of x] by simp
next
  case (3 x)
  then show ?case using binade_measure_double [of x] by simp
qed

declare binade.simps [simp del]

definition ulp_exp :: "real \<Rightarrow> int" where
  "ulp_exp x = max (binade \<bar>x\<bar> - 52) (- 1074)"

definition round_binary64 :: "real \<Rightarrow> real" where
  "round_binary64 x =
     (if x = 0 then 0
      else let u = 2 powi ulp_exp x
           in u * of_int (round_half_even (x / u)))"

definition max_float :: real where
  "max_float = (2 ^ 53 - 1) * 2 ^ 971"

datatype pyfloat = Fin real | PInf | NInf | NaN

definition rnd :: "real \<Rightarrow> pyfloat" where
  "rnd x = (let v = round_binary64 x
            in if max_float < v then PInf else if v < - max_float then NInf else Fin v)"

text \<open>A decimal literal of the source denotes the double nearest to it.\<close>

definition lit :: "real \<Rightarrow> pyfloat" where
  "lit x = rnd x"

fun fneg :: "pyfloat \<Rightarrow> pyfloat" where
  "fneg (Fin x) = Fin (- x)"
| "fneg PInf = NInf"
| "fneg NInf = PInf"
| "fneg NaN = NaN"

fun fadd :: "pyfloat \<Rightarrow> pyfloat \<Rightarrow> pyfloat" where
  "fadd (Fin x) (Fin y) = rnd (x + y)"
| "fadd NaN b = NaN"
| "fadd a NaN = NaN"
| "fadd PInf NInf = NaN"
| "fadd NInf PInf = NaN"
| "fadd PInf b = PInf"
| "fadd a PInf = PInf"
| "fadd NInf b = NInf"
| "fadd a NInf = NInf"

definition fsub :: "pyfloat \<Rightarrow> pyfloat \<Rightarrow> pyfloat" where
  "fsub a b = fadd a (fneg b)"

fun fsign :: "pyfloat \<Rightarrow> int" where
  "fsign (Fin x) = (if x < 0 then - 1 else if 0 < x then 1 else 0)"
| "fsign PInf = 1"
| "fsign NInf = - 1"
| "fsign NaN = 0"

fun fmul :: "pyfloat \<Rightarrow> pyfloat \<Rightarrow> pyfloat" where
  "fmul (Fin x) (Fin y) = rnd (x * y)"
| "fmul NaN b = NaN"
| "fmul a NaN = NaN"
| "fmul a b = (if fsign a * fsign b = 0 then NaN else if 0 < fsign a * fsign b then PInf else NInf)"

datatype py_exc =
    ValueError string
  | ZeroDivisionError
  | OverflowError
  | TypeError
  | AttributeError
  | JSONDecodeError

text \<open>
  Python's float division raises \<^verbatim>\<open>ZeroDivisionError\<close> whenever the divisor compares
  equal to zero, whatever the dividend.
\<close>

fun fdiv :: "pyfloat \<Rightarrow> pyfloat \<Rightarrow> py_exc + pyfloat" where
  "fdiv a (Fin y) =
     (if y = 0 then Inl ZeroDivisionError
      else Inr (case a of Fin x \<Rightarrow> rnd (x / y)
                | NaN \<Rightarrow> NaN
                | _ \<Rightarrow> if 0 < fsign a * fsign (Fin y) then PInf else NInf))"
| "fdiv a NaN = Inr NaN"
| "fdiv (Fin x) b = Inr (Fin 0)"
| "fdiv NaN b = Inr NaN"
| "fdiv a b = Inr NaN"

fun flt :: "pyfloat \<Rightarrow> pyfloat \<Rightarrow> bool" where
  "flt (Fin x) (Fin y) = (x < y)"
| "flt NaN b = False"
| "flt a NaN = False"
| "flt a NInf = False"
| "flt PInf b = False"
| "flt a b = True"

definition fgt :: "pyfloat \<Rightarrow> pyfloat \<Rightarrow> bool" where
  "fgt a b = flt b a"

definition feq :: "pyfloat \<Rightarrow> pyfloat \<Rightarrow> bool" where
  "feq a b = (a \<noteq> NaN \<and> a = b)"

text \<open>
  \<^verbatim>\<open>round(x, n)\<close> on a float rounds the exact value of \<open>x\<close> to \<open>n\<close> decimal places, ties to
  even, and returns the double nearest to that decimal; infinities and NaN round to
  themselves.
\<close>

fun py_round :: "pyfloat \<Rightarrow> nat \<Rightarrow> pyfloat" where
  "py_round (Fin x) n = rnd (of_int (round_half_even (x * 10 ^ n)) / 10 ^ n)"
| "py_round a n = a"

text \<open>
  Python integers are unbounded.  Used in float arithmetic an integer is converted to
  the nearest double; the conversion raises \<^verbatim>\<open>OverflowError\<close> beyond the range of doubles.
\<close>

definition float_of_int :: "int \<Rightarrow> py_exc + pyfloat" where
  "float_of_int i = (case rnd (of_int i) of Fin v \<Rightarrow> Inr (Fin v) | _ \<Rightarrow> Inl OverflowError)"

subsection \<open>Strings and dictionaries\<close>

text \<open>
  Strings are byte strings.  \<^verbatim>\<open>str.lower\<close> maps the ASCII capitals to small letters; no
  character outside ASCII lowers to an ASCII letter that occurs in a key this program
  compares with, so other bytes are left as they are.  \<^verbatim>\<open>dict.get(k, d)\<close> is a lookup
  in an association list with a default.
\<close>

definition lower_char :: "char \<Rightarrow> char" where
  "lower_char c =
     (case map_of (zip ''ABCDEFGHIJKLMNOPQRSTUVWXYZ'' ''abcdefghijklmnopqrstuvwxyz'') c of
        Some l \<Rightarrow> l
      | None \<Rightarrow> c)"

definition lower :: "string \<Rightarrow> string" where
  "lower s = map lower_char s"

definition dict_get :: "('k \<times> 'v) list \<Rightarrow> 'k \<Rightarrow> 'v \<Rightarrow> 'v" where
  "dict_get d k dflt = (case map_of d k of Some v \<Rightarrow> v | None \<Rightarrow> dflt)"

section \<open>Metabolic calculator\<close>

text \<open>
  \<^verbatim>\<open>calculate_bmr\<close> (Harris-Benedict).  \<^verbatim>\<open>age\<close> is a Python \<^verbatim>\<open>int\<close>, converted to a float
  by the product \<^verbatim>\<open>5.677 * age\<close> (or \<^verbatim>\<open>4.330 * age\<close>); that conversion is the only
  operation of the function that can raise.  The sum is evaluated left to right.
\<close>

definition calculate_bmr :: "pyfloat \<Rightarrow> pyfloat \<Rightarrow> int \<Rightarrow> string \<Rightarrow> py_exc + pyfloat" where
  "calculate_bmr weight height age gender =
     (case float_of_int age of
        Inl e \<Rightarrow> Inl e
      | Inr a \<Rightarrow>
          Inr (if lower gender = ''masculino''
               then fsub (fadd (fadd (lit 88.362) (fmul (lit 13.397) weight))
                               (fmul (lit 4.799) height))
                         (fmul (lit 5.677) a)
               else fsub (fadd (fadd (lit 447.593) (fmul (lit 9.247) weight))
                               (fmul (lit 3.098) height))
                         (fmul (lit 4.330) a)))"

definition activity_multipliers :: "(string \<times> pyfloat) list" where
  "activity_multipliers =
     [(''sedentario'', lit 1.2),
      (''leve'', lit 1.375),
      (''moderado'', lit 1.55),
      (''intenso'', lit 1.725),
      (''muito_intenso'', lit 1.9)]"

definition calculate_tdee :: "pyfloat \<Rightarrow> string \<Rightarrow> pyfloat" where
  "calculate_tdee bmr activity_level =
     fmul bmr (dict_get activity_multipliers (lower activity_level) (lit 1.2))"

definition calculate_daily_calorie_goal :: "pyfloat \<Rightarrow> pyfloat \<Rightarrow> pyfloat \<Rightarrow> pyfloat" where
  "calculate_daily_calorie_goal tdee current_weight goal_weight =
     (if flt goal_weight current_weight then fsub tdee (Fin 500)
      else if fgt goal_weight current_weight then fadd tdee (Fin 300)
      else tdee)"

section \<open>HTTP errors and the document store\<close>

text \<open>
  A handler either returns its response or raises \<^verbatim>\<open>HTTPException(status_code, detail)\<close>.
  The detail is a fixed text, or \<^verbatim>\<open>str(e)\<close> of a caught exception, possibly after a fixed
  prefix.  Accented letters of the Portuguese messages are written without the accent.
\<close>

datatype detail = Text string | StrOf py_exc | Prefixed string py_exc

datatype http_error = HTTPException (status_code: nat) (detail: detail)

text \<open>
  A collection is the list of its documents in insertion order.  \<^verbatim>\<open>find_one\<close> returns the
  first document that matches the filter; \<^verbatim>\<open>update_one\<close> changes the first document that
  matches and, with \<^verbatim>\<open>upsert=True\<close>, inserts when none matches.
\<close>

fun find_one :: "('d \<Rightarrow> bool) \<Rightarrow> 'd list \<Rightarrow> 'd option" where
  "find_one flt_by [] = None"
| "find_one flt_by (d # ds) = (if flt_by d then Some d else find_one flt_by ds)"

fun update_one :: "('d \<Rightarrow> bool) \<Rightarrow> ('d \<Rightarrow> 'd) \<Rightarrow> 'd list \<Rightarrow> 'd list" where
  "update_one flt_by upd [] = []"
| "update_one flt_by upd (d # ds) =
     (if flt_by d then upd d # ds else d # update_one flt_by upd ds)"

definition update_one_upsert :: "('d \<Rightarrow> bool) \<Rightarrow> ('d \<Rightarrow> 'd) \<Rightarrow> 'd \<Rightarrow> 'd list \<Rightarrow> 'd list" where
  "update_one_upsert flt_by upd fresh ds =
     (case find_one flt_by ds of
        None \<Rightarrow> ds @ [fresh]
      | Some d \<Rightarrow> update_one flt_by upd ds)"

text \<open>
  \<^verbatim>\<open>cursor.sort("date", -1)\<close> orders by the date string, greatest first; strings compare
  byte by byte, a proper prefix before its extensions.  MongoDB leaves the order of
  documents with equal keys open; the model keeps them in insertion order.
  \<^verbatim>\<open>cursor.limit(n)\<close>: a limit of 0 is no limit, and a negative limit counts as its
  absolute value.
\<close>

fun insert_desc :: "('d \<Rightarrow> string) \<Rightarrow> 'd \<Rightarrow> 'd list \<Rightarrow> 'd list" where
  "insert_desc key d [] = [d]"
| "insert_desc key d (x # xs) =
     (if key x \<le> key d then d # x # xs else x # insert_desc key d xs)"

definition sort_desc :: "('d \<Rightarrow> string) \<Rightarrow> 'd list \<Rightarrow> 'd list" where
  "sort_desc key ds = foldr (insert_desc key) ds []"

definition limit_docs :: "int \<Rightarrow> 'd list \<Rightarrow> 'd list" where
  "limit_docs n ds = (if n = 0 then ds else take (nat \<bar>n\<bar>) ds)"

section \<open>Data model\<close>

type_synonym timestamp = nat

record PortionAdjustment =
  meal_id :: string
  new_portion_size :: pyfloat

record UserProfile =
  user_id :: string
  name :: string
  age :: int
  gender :: string
  height :: pyfloat
  weight :: pyfloat
  activity_level :: string
  goal_weight :: pyfloat
  daily_calorie_goal :: "pyfloat option"
  created_at :: "timestamp option"

record MealEntry =
  meal_id :: string
  user_id :: string
  date :: string
  time :: string
  food_name :: string
  portion_size :: pyfloat
  calories :: pyfloat
  protein :: pyfloat
  carbs :: pyfloat
  fats :: pyfloat
  image_base64 :: "string option"

text \<open>A stored meal is the dumped \<^verbatim>\<open>MealEntry\<close> with the time of its insertion.\<close>

record meal_doc = MealEntry +
  created_at :: timestamp

section \<open>Profile endpoint\<close>

record profile_response =
  message :: string
  response_daily_calorie_goal :: pyfloat
  response_bmr :: pyfloat
  response_tdee :: pyfloat

text \<open>
  \<^verbatim>\<open>create_or_update_profile\<close>: the three calculator calls, the dumped profile with
  \<^verbatim>\<open>daily_calorie_goal\<close> and \<^verbatim>\<open>created_at\<close> overwritten, and the upsert keyed by
  \<^verbatim>\<open>user_id\<close>.  The \<^verbatim>\<open>$set\<close> carries every field of the profile, so the matched document
  becomes the new one.  Any exception becomes a 500 and nothing is written.
\<close>

definition create_or_update_profile ::
  "UserProfile list \<Rightarrow> timestamp \<Rightarrow> UserProfile
     \<Rightarrow> (http_error + profile_response) \<times> UserProfile list" where
  "create_or_update_profile users now profile =
     (case calculate_bmr (weight profile) (height profile) (age profile) (gender profile) of
        Inl e \<Rightarrow> (Inl (HTTPException 500 (StrOf e)), users)
      | Inr bmr \<Rightarrow>
          let tdee = calculate_tdee bmr (activity_level profile);
              daily_goal = calculate_daily_calorie_goal tdee (weight profile) (goal_weight profile);
              profile_dict = profile
                \<lparr>daily_calorie_goal := Some (py_round daily_goal 0),
                 UserProfile.created_at := Some now\<rparr>;
              users' = update_one_upsert
                         (\<lambda>d. UserProfile.user_id d = UserProfile.user_id profile)
                         (\<lambda>d. profile_dict) profile_dict users
          in (Inr \<lparr>message = ''Perfil salvo com sucesso'',
                    response_daily_calorie_goal = py_round daily_goal 0,
                    response_bmr = py_round bmr 0,
                    response_tdee = py_round tdee 0\<rparr>,
              users'))"

section \<open>Meal endpoints\<close>

definition save_meal :: "meal_doc list \<Rightarrow> timestamp \<Rightarrow> MealEntry \<Rightarrow> meal_doc list" where
  "save_meal meals now meal = meals @ [MealEntry.extend meal \<lparr>created_at = now\<rparr>]"

record updated_values =
  new_portion :: pyfloat
  new_calories :: pyfloat
  new_protein :: pyfloat
  new_carbs :: pyfloat
  new_fats :: pyfloat

definition apply_set :: "updated_values \<Rightarrow> meal_doc \<Rightarrow> meal_doc" where
  "apply_set v m =
     m\<lparr>portion_size := new_portion v,
       calories := new_calories v,
       protein := new_protein v,
       carbs := new_carbs v,
       fats := new_fats v\<rparr>"

text \<open>
  \<^verbatim>\<open>adjust_portion\<close>.  The 404 is re-raised as it is; every other exception, the
  \<^verbatim>\<open>ZeroDivisionError\<close> of the ratio among them, is turned into a 500 whose detail is the
  exception's text.  The update is the last statement, so an error leaves the collection
  as it was.
\<close>

definition adjust_portion ::
  "meal_doc list \<Rightarrow> PortionAdjustment \<Rightarrow> (http_error + updated_values) \<times> meal_doc list" where
  "adjust_portion meals adjustment =
     (case find_one (\<lambda>m. meal_id m = PortionAdjustment.meal_id adjustment) meals of
        None \<Rightarrow> (Inl (HTTPException 404 (Text ''Refeicao nao encontrada'')), meals)
      | Some meal \<Rightarrow>
          (case fdiv (new_portion_size adjustment) (portion_size meal) of
             Inl e \<Rightarrow> (Inl (HTTPException 500 (StrOf e)), meals)
           | Inr adjustment_factor \<Rightarrow>
               let updated =
                     \<lparr>new_portion = new_portion_size adjustment,
                      new_calories = py_round (fmul (calories meal) adjustment_factor) 1,
                      new_protein = py_round (fmul (protein meal) adjustment_factor) 1,
                      new_carbs = py_round (fmul (carbs meal) adjustment_factor) 1,
                      new_fats = py_round (fmul (fats meal) adjustment_factor) 1\<rparr>
               in (Inr updated,
                   update_one (\<lambda>m. meal_id m = PortionAdjustment.meal_id adjustment)
                     (apply_set updated) meals)))"

text \<open>
  \<^verbatim>\<open>get_meal_history\<close>: the query, then the grouping loop over the retrieved meals.
  \<^verbatim>\<open>history_by_date\<close> is a dictionary keyed by the date string as stored; it keeps its
  keys in the order of first insertion.  The totals start at the integer 0, which the
  first addition turns into the float 0.0.
\<close>

record history_group =
  group_date :: string
  group_meals :: "meal_doc list"
  total_calories :: pyfloat
  total_protein :: pyfloat
  total_carbs :: pyfloat
  total_fats :: pyfloat

definition query_recent_meals :: "meal_doc list \<Rightarrow> string \<Rightarrow> int \<Rightarrow> meal_doc list" where
  "query_recent_meals meals uid days =
     limit_docs (days * 10) (sort_desc date (filter (\<lambda>m. user_id m = uid) meals))"

definition new_group :: "string \<Rightarrow> history_group" where
  "new_group meal_date =
     \<lparr>group_date = meal_date, group_meals = [],
      total_calories = Fin 0, total_protein = Fin 0, total_carbs = Fin 0, total_fats = Fin 0\<rparr>"

definition add_meal :: "meal_doc \<Rightarrow> history_group \<Rightarrow> history_group" where
  "add_meal meal g =
     g\<lparr>group_meals := group_meals g @ [meal],
       total_calories := fadd (total_calories g) (calories meal),
       total_protein := fadd (total_protein g) (protein meal),
       total_carbs := fadd (total_carbs g) (carbs meal),
       total_fats := fadd (total_fats g) (fats meal)\<rparr>"

definition history_step ::
  "(string \<times> history_group) list \<Rightarrow> meal_doc \<Rightarrow> (string \<times> history_group) list" where
  "history_step history_by_date meal =
     (let meal_date = date meal;
          h = (if map_of history_by_date meal_date = None
               then history_by_date @ [(meal_date, new_group meal_date)]
               else history_by_date)
      in AList.map_entry meal_date (add_meal meal) h)"

definition group_history :: "meal_doc list \<Rightarrow> history_group list" where
  "group_history meals = map snd (foldl history_step [] meals)"

definition get_meal_history :: "meal_doc list \<Rightarrow> string \<Rightarrow> int \<Rightarrow> history_group list" where
  "get_meal_history meals uid days = group_history (query_recent_meals meals uid days)"

section \<open>Food analysis: the response normalizer\<close>

subsection \<open>JSON values and \<^verbatim>\<open>json.loads\<close>\<close>

text \<open>
  The value \<^verbatim>\<open>json.loads\<close> returns: \<^verbatim>\<open>None\<close>, a \<^verbatim>\<open>bool\<close>, an \<^verbatim>\<open>int\<close>, a \<^verbatim>\<open>float\<close>, a \<^verbatim>\<open>str\<close>,
  a \<^verbatim>\<open>list\<close> or a \<^verbatim>\<open>dict\<close>.  A dictionary is an association list with distinct keys in
  insertion order; \<open>AList.update\<close> is the item assignment \<^verbatim>\<open>d[k] = v\<close>.
\<close>

datatype json =
    JNull
  | JBool bool
  | JInt int
  | JFloat pyfloat
  | JStr string
  | JArr "json list"
  | JObj "(string \<times> json) list"

datatype token = TLBrace | TRBrace | TLBrack | TRBrack | TComma | TColon | TVal json

definition startswith :: "string \<Rightarrow> string \<Rightarrow> bool" where
  "startswith s p = (take (length p) s = p)"

definition is_digit :: "char \<Rightarrow> bool" where
  "is_digit c = (c \<in> set ''0123456789'')"

definition digit_val :: "char \<Rightarrow> nat" where
  "digit_val c =
     (case map_of (zip ''0123456789abcdef'' [0, 1, 2, 3, 4, 5, 6, 7, 8, 9, 10, 11, 12, 13, 14, 15])
             (lower_char c) of
        Some d \<Rightarrow> d
      | None \<Rightarrow> 0)"

definition digits_val :: "nat \<Rightarrow> string \<Rightarrow> nat" where
  "digits_val base ds = foldl (\<lambda>a c. base * a + digit_val c) 0 ds"

definition hex4 :: "string \<Rightarrow> nat option" where
  "hex4 ds =
     (if length ds = 4 \<and> list_all (\<lambda>c. lower_char c \<in> set ''0123456789abcdef'') ds
      then Some (digits_val 16 ds) else None)"

text \<open>The UTF-8 bytes of a code point (a lone surrogate is written in the same three-byte form).\<close>

definition utf8 :: "nat \<Rightarrow> string" where
  "utf8 n =
     (if n < 0x80 then [char_of n]
      else if n < 0x800 then [char_of (0xC0 + n div 0x40), char_of (0x80 + n mod 0x40)]
      else if n < 0x10000 then
        [char_of (0xE0 + n div 0x1000), char_of (0x80 + n div 0x40 mod 0x40),
         char_of (0x80 + n mod 0x40)]
      else
        [char_of (0xF0 + n div 0x40000), char_of (0x80 + n div 0x1000 mod 0x40),
         char_of (0x80 + n div 0x40 mod 0x40), char_of (0x80 + n mod 0x40)])"

definition escapes :: "(char \<times> char) list" where
  "escapes =
     [(CHR 0x22, CHR 0x22), (CHR 0x5C, CHR 0x5C), (CHR ''/'', CHR ''/''),
      (CHR ''b'', CHR 0x08), (CHR ''f'', CHR 0x0C), (CHR ''n'', CHR 0x0A),
      (CHR ''r'', CHR 0x0D), (CHR ''t'', CHR 0x09)]"

text \<open>
  \<open>scan_string cs acc n\<close> reads a string body up to its closing quote and returns the
  decoded text with the number of characters read, as the scanner of the \<^verbatim>\<open>json\<close> module
  returns the end index.  A control character or a bad escape is a decoding error.
\<close>

function scan_string :: "string \<Rightarrow> string \<Rightarrow> nat \<Rightarrow> (string \<times> nat) option" where
  "scan_string [] acc n = None"
| "scan_string (c # cs) acc n =
     (if c = CHR 0x22 then Some (rev acc, Suc n)
      else if c = CHR 0x5C then
        (case cs of
           [] \<Rightarrow> None
         | e # cs' \<Rightarrow>
             if e = CHR ''u'' then
               (case hex4 (take 4 cs') of
                  None \<Rightarrow> None
                | Some u \<Rightarrow>
                    if 0xD800 \<le> u \<and> u \<le> 0xDBFF \<and> take 2 (drop 4 cs') = [CHR 0x5C, CHR ''u'']
                    then (case hex4 (take 4 (drop 6 cs')) of
                            None \<Rightarrow> None
                          | Some u2 \<Rightarrow>
                              if 0xDC00 \<le> u2 \<and> u2 \<le> 0xDFFF
                              then scan_string (drop 10 cs')
                                     (rev (utf8 (0x10000 + (u - 0xD800) * 0x400 + (u2 - 0xDC00))) @ acc)
                                     (n + 12)
                              else scan_string (drop 4 cs') (rev (utf8 u) @ acc) (n + 6))
                    else scan_string (drop 4 cs') (rev (utf8 u) @ acc) (n + 6))
             else (case map_of escapes e of
                     None \<Rightarrow> None
                   | Some x \<Rightarrow> scan_string cs' (x # acc) (n + 2)))
      else if c < CHR 0x20 then None
      else scan_string cs (c # acc) (Suc n))"
  by pat_completeness auto
termination
  by (relation "measure (\<lambda>(cs, acc, n). length cs)") auto

text \<open>
  A number is \<^verbatim>\<open>-?(0|[1-9]\d*)(\.\d+)?([eE][-+]?\d+)?\<close>: an \<^verbatim>\<open>int\<close> when it has neither
  fraction nor exponent, otherwise the double nearest to the decimal.
\<close>

definition scan_number :: "string \<Rightarrow> (json \<times> nat) option" where
  "scan_number cs =
     (let neg = (take 1 cs = ''-'');
          s1 = (if neg then drop 1 cs else cs);
          ip = (if take 1 s1 = ''0'' then ''0'' else takeWhile is_digit s1)
      in if ip = [] then None
         else
           let s2 = drop (length ip) s1;
               fr = (if take 1 s2 = ''.'' then takeWhile is_digit (drop 1 s2) else []);
               s3 = (if fr = [] then s2 else drop (Suc (length fr)) s2);
               has_e = (take 1 s3 = ''e'' \<or> take 1 s3 = ''E'');
               sg = (if has_e \<and> (take 1 (drop 1 s3) = ''+'' \<or> take 1 (drop 1 s3) = ''-'')
                     then take 1 (drop 1 s3) else []);
               ed = (if has_e then takeWhile is_digit (drop (Suc (length sg)) s3) else []);
               used = (if neg then 1 else 0) + length ip
                      + (if fr = [] then 0 else Suc (length fr))
                      + (if ed = [] then 0 else Suc (length sg) + length ed);
               mant = of_nat (digits_val 10 ip) + of_nat (digits_val 10 fr) / 10 ^ length fr;
               scale = (if sg = ''-'' then 1 / 10 ^ digits_val 10 ed else 10 ^ digits_val 10 ed)
           in if fr = [] \<and> ed = []
              then Some (JInt (if neg then - int (digits_val 10 ip) else int (digits_val 10 ip)), used)
              else Some (JFloat (rnd ((if neg then - 1 else 1) * mant * scale)), used))"

definition is_json_ws :: "char \<Rightarrow> bool" where
  "is_json_ws c = (c \<in> set [CHR 0x20, CHR 0x09, CHR 0x0A, CHR 0x0D])"

definition emit :: "token \<Rightarrow> token list option \<Rightarrow> token list option" where
  "emit t r = map_option ((#) t) r"

function lex :: "string \<Rightarrow> token list option" where
  "lex [] = Some []"
| "lex (c # r) =
     (if is_json_ws c then lex r
      else if c = CHR ''{'' then emit TLBrace (lex r)
      else if c = CHR ''}'' then emit TRBrace (lex r)
      else if c = CHR ''['' then emit TLBrack (lex r)
      else if c = CHR '']'' then emit TRBrack (lex r)
      else if c = CHR '','' then emit TComma (lex r)
      else if c = CHR '':'' then emit TColon (lex r)
      else if c = CHR 0x22 then
        (case scan_string r [] 0 of
           None \<Rightarrow> None
         | Some (s, n) \<Rightarrow> emit (TVal (JStr s)) (lex (drop n r)))
      else if startswith (c # r) ''null'' then emit (TVal JNull) (lex (drop 3 r))
      else if startswith (c # r) ''true'' then emit (TVal (JBool True)) (lex (drop 3 r))
      else if startswith (c # r) ''false'' then emit (TVal (JBool False)) (lex (drop 4 r))
      else
        (case scan_number (c # r) of
           Some (v, n) \<Rightarrow> emit (TVal v) (lex (drop (n - 1) r))
         | None \<Rightarrow>
             if startswith (c # r) ''NaN'' then emit (TVal (JFloat NaN)) (lex (drop 2 r))
             else if startswith (c # r) ''Infinity'' then emit (TVal (JFloat PInf)) (lex (drop 7 r))
             else if startswith (c # r) ''-Infinity'' then emit (TVal (JFloat NInf)) (lex (drop 8 r))
             else None))"
  by pat_completeness auto
termination
  by (relation "measure length") auto

definition mk_dict :: "(string \<times> json) list \<Rightarrow> (string \<times> json) list" where
  "mk_dict pairs = foldl (\<lambda>d (k, v). AList.update k v d) [] pairs"

text \<open>
  The grammar of values, read token by token with a stack of the arrays and objects that
  are open: \<open>InArr acc\<close> holds the elements read so far, \<open>InObj acc k\<close> the pairs read so
  far and the key whose value is being read (both newest first).
\<close>

datatype frame = InArr "json list" | InObj "(string \<times> json) list" string

datatype expect =
    Value
  | FirstElement
  | FirstKey
  | Key "(string \<times> json) list"
  | Colon "(string \<times> json) list" string
  | After json

fun parse :: "expect \<Rightarrow> frame list \<Rightarrow> token list \<Rightarrow> json option" where
  "parse e st [] = (case (e, st) of (After v, []) \<Rightarrow> Some v | _ \<Rightarrow> None)"
| "parse e st (t # ts) =
     (case e of
        Value \<Rightarrow>
          (case t of
             TVal v \<Rightarrow> parse (After v) st ts
           | TLBrack \<Rightarrow> parse FirstElement st ts
           | TLBrace \<Rightarrow> parse FirstKey st ts
           | _ \<Rightarrow> None)
      | FirstElement \<Rightarrow>
          (case t of
             TRBrack \<Rightarrow> parse (After (JArr [])) st ts
           | TVal v \<Rightarrow> parse (After v) (InArr [] # st) ts
           | TLBrack \<Rightarrow> parse FirstElement (InArr [] # st) ts
           | TLBrace \<Rightarrow> parse FirstKey (InArr [] # st) ts
           | _ \<Rightarrow> None)
      | FirstKey \<Rightarrow>
          (case t of
             TRBrace \<Rightarrow> parse (After (JObj [])) st ts
           | TVal (JStr k) \<Rightarrow> parse (Colon [] k) st ts
           | _ \<Rightarrow> None)
      | Key acc \<Rightarrow>
          (case t of
             TVal (JStr k) \<Rightarrow> parse (Colon acc k) st ts
           | _ \<Rightarrow> None)
      | Colon acc k \<Rightarrow>
          (case t of
             TColon \<Rightarrow> parse Value (InObj acc k # st) ts
           | _ \<Rightarrow> None)
      | After v \<Rightarrow>
          (case st of
             [] \<Rightarrow> None
           | InArr acc # st' \<Rightarrow>
               (case t of
                  TComma \<Rightarrow> parse Value (InArr (v # acc) # st') ts
                | TRBrack \<Rightarrow> parse (After (JArr (rev (v # acc)))) st' ts
                | _ \<Rightarrow> None)
           | InObj acc k # st' \<Rightarrow>
               (case t of
                  TComma \<Rightarrow> parse (Key ((k, v) # acc)) st' ts
                | TRBrace \<Rightarrow> parse (After (JObj (mk_dict (rev ((k, v) # acc))))) st' ts
                | _ \<Rightarrow> None)))"

definition json_loads :: "string \<Rightarrow> py_exc + json" where
  "json_loads s =
     (case lex s of
        None \<Rightarrow> Inl JSONDecodeError
      | Some ts \<Rightarrow>
          (case parse Value [] ts of
             None \<Rightarrow> Inl JSONDecodeError
           | Some v \<Rightarrow> Inr v))"

subsection \<open>Text clean-up\<close>

text \<open>
  A text is held as the bytes of its UTF-8 encoding.  \<^verbatim>\<open>str.strip()\<close> and the regular
  expression's \<^verbatim>\<open>\s\<close> use Python's whitespace, which is Unicode's: the characters U+0009 to
  U+000D, U+001C to U+0020, U+0085, U+00A0, U+1680, U+2000 to U+200A, U+2028, U+2029,
  U+202F, U+205F and U+3000.  \<open>spaces\<close> lists their encodings, none of which begins
  another.  \<open>space_len ws s\<close> is the length of the encoding that \<open>s\<close> begins with, and 0
  when it begins with none; \<open>lstrip_by\<close> drops such encodings from the left for as long as
  there is one, and \<open>rstrip\<close> does the same from the right, on the reversed text with the
  reversed encodings.
\<close>

definition spaces :: "string list" where
  "spaces =
     [[CHR 0x09], [CHR 0x0A], [CHR 0x0B], [CHR 0x0C], [CHR 0x0D],
      [CHR 0x1C], [CHR 0x1D], [CHR 0x1E], [CHR 0x1F], [CHR 0x20],
      [CHR 0xC2, CHR 0x85], [CHR 0xC2, CHR 0xA0],
      [CHR 0xE1, CHR 0x9A, CHR 0x80],
      [CHR 0xE2, CHR 0x80, CHR 0x80], [CHR 0xE2, CHR 0x80, CHR 0x81],
      [CHR 0xE2, CHR 0x80, CHR 0x82], [CHR 0xE2, CHR 0x80, CHR 0x83],
      [CHR 0xE2, CHR 0x80, CHR 0x84], [CHR 0xE2, CHR 0x80, CHR 0x85],
      [CHR 0xE2, CHR 0x80, CHR 0x86], [CHR 0xE2, CHR 0x80, CHR 0x87],
      [CHR 0xE2, CHR 0x80, CHR 0x88], [CHR 0xE2, CHR 0x80, CHR 0x89],
      [CHR 0xE2, CHR 0x80, CHR 0x8A],
      [CHR 0xE2, CHR 0x80, CHR 0xA8], [CHR 0xE2, CHR 0x80, CHR 0xA9],
      [CHR 0xE2, CHR 0x80, CHR 0xAF], [CHR 0xE2, CHR 0x81, CHR 0x9F],
      [CHR 0xE3, CHR 0x80, CHR 0x80]]"

definition space_len :: "string list \<Rightarrow> string \<Rightarrow> nat" where
  "space_len ws s = (case find (startswith s) ws of None \<Rightarrow> 0 | Some w \<Rightarrow> length w)"

lemma space_len_drop: "space_len ws s \<noteq> 0 \<Longrightarrow> length (drop (space_len ws s) s) < length s"
proof -
  assume n: "space_len ws s \<noteq> 0"
  then obtain w where w: "find (startswith s) ws = Some w" and l: "length w \<noteq> 0"
    by (auto simp: space_len_def split: option.splits)
  from w have "startswith s w"
    by (auto simp: find_Some_iff)
  then have "take (length w) s = w"
    by (simp add: startswith_def)
  then have "s \<noteq> []" using l by auto
  then show ?thesis using n by simp
qed

function lstrip_by :: "string list \<Rightarrow> string \<Rightarrow> string" where
  "lstrip_by ws [] = []"
| "lstrip_by ws (c # cs) =
     (if space_len ws (c # cs) = 0 then c # cs
      else lstrip_by ws (drop (space_len ws (c # cs)) (c # cs)))"
  by pat_completeness auto
termination
proof (relation "measure (\<lambda>(ws, s). length s)")
  show "wf (measure (\<lambda>(ws :: string list, s :: string). length s))"
    by simp
next
  fix ws c cs
  assume "space_len ws (c # cs) \<noteq> 0"
  then have "length (drop (space_len ws (c # cs)) (c # cs)) < length (c # cs)"
    by (rule space_len_drop)
  then show "((ws, drop (space_len ws (c # cs)) (c # cs)), (ws, c # cs))
      \<in> measure (\<lambda>(ws, s). length s)"
    by simp
qed

definition lstrip :: "string \<Rightarrow> string" where
  "lstrip s = lstrip_by spaces s"

definition rstrip :: "string \<Rightarrow> string" where
  "rstrip s = rev (lstrip_by (map rev spaces) (rev s))"

definition strip :: "string \<Rightarrow> string" where
  "strip s = rstrip (lstrip s)"

lemma length_lstrip_by: "length (lstrip_by ws s) \<le> length s"
proof (induction ws s rule: lstrip_by.induct)
  case (1 ws)
  show ?case by simp
next
  case (2 ws c cs)
  show ?case
  proof (cases "space_len ws (c # cs) = 0")
    case True
    then show ?thesis by simp
  next
    case False
    then have "length (lstrip_by ws (c # cs)) \<le> length (drop (space_len ws (c # cs)) (c # cs))"
      using 2 by simp
    also have "\<dots> \<le> length (c # cs)"
      by (simp del: drop_Suc_Cons)
    finally show ?thesis .
  qed
qed

lemma length_lstrip_drop: "length (lstrip (drop n cs)) < Suc (length cs)"
proof -
  have "length (lstrip (drop n cs)) \<le> length (drop n cs)"
    unfolding lstrip_def by (rule length_lstrip_by)
  also have "\<dots> \<le> length cs" by simp
  finally show ?thesis by simp
qed

text \<open>
  \<open>remove_fences\<close> is \<^verbatim>\<open>re.sub(r'```json\s*|```\s*', '', text)\<close>: scanning from the left, at
  each position the first alternative is tried before the second, \<^verbatim>\<open>\s*\<close> takes all the
  whitespace that follows, and a character no match starts at is kept.
\<close>

function remove_fences :: "string \<Rightarrow> string" where
  "remove_fences [] = []"
| "remove_fences (c # cs) =
     (if startswith (c # cs) ''```json'' then remove_fences (lstrip (drop 6 cs))
      else if startswith (c # cs) ''```'' then remove_fences (lstrip (drop 2 cs))
      else c # remove_fences cs)"
  by pat_completeness auto
termination
  by (relation "measure length") (simp_all add: length_lstrip_drop)

subsection \<open>Merging several detected foods\<close>

text \<open>An exception raised by a step ends the computation; otherwise the next step runs.\<close>

fun and_then :: "py_exc + 'a \<Rightarrow> ('a \<Rightarrow> py_exc + 'b) \<Rightarrow> py_exc + 'b" where
  "and_then (Inl exc) next_step = Inl exc"
| "and_then (Inr x) next_step = next_step x"

fun collect :: "('a \<Rightarrow> py_exc + 'b) \<Rightarrow> 'a list \<Rightarrow> py_exc + 'b list" where
  "collect f [] = Inr []"
| "collect f (x # xs) = and_then (f x) (\<lambda>y. and_then (collect f xs) (\<lambda>ys. Inr (y # ys)))"

text \<open>\<^verbatim>\<open>item.get(...)\<close> exists on dictionaries only.\<close>

definition as_dict :: "json \<Rightarrow> py_exc + (string \<times> json) list" where
  "as_dict item = (case item of JObj d \<Rightarrow> Inr d | _ \<Rightarrow> Inl AttributeError)"

text \<open>\<^verbatim>\<open>' + '.join(names)\<close> raises \<^verbatim>\<open>TypeError\<close> on an element that is not a string.\<close>

definition as_str :: "json \<Rightarrow> py_exc + string" where
  "as_str v = (case v of JStr s \<Rightarrow> Inr s | _ \<Rightarrow> Inl TypeError)"

fun join :: "string \<Rightarrow> string list \<Rightarrow> string" where
  "join sep [] = []"
| "join sep [x] = x"
| "join sep (x # y # ys) = x @ sep @ join sep (y # ys)"

text \<open>
  \<^verbatim>\<open>sum(values)\<close> adds from the left, starting from the integer 0.  Integers add exactly,
  a \<^verbatim>\<open>bool\<close> counts as 0 or 1, an integer met by a float is converted first, and anything
  else raises \<^verbatim>\<open>TypeError\<close>.  (From CPython 3.12 on, \<^verbatim>\<open>sum\<close> carries a compensation term
  through float additions, which can change the last bit of a sum of three or more
  floats; the plain left-to-right sum is what earlier versions compute.)
\<close>

fun add_num :: "json \<Rightarrow> json \<Rightarrow> py_exc + json" where
  "add_num (JInt a) (JInt b) = Inr (JInt (a + b))"
| "add_num (JInt a) (JBool b) = Inr (JInt (a + (if b then 1 else 0)))"
| "add_num (JInt a) (JFloat y) = and_then (float_of_int a) (\<lambda>x. Inr (JFloat (fadd x y)))"
| "add_num (JFloat x) (JInt b) = and_then (float_of_int b) (\<lambda>y. Inr (JFloat (fadd x y)))"
| "add_num (JFloat x) (JBool b) = Inr (JFloat (fadd x (Fin (if b then 1 else 0))))"
| "add_num (JFloat x) (JFloat y) = Inr (JFloat (fadd x y))"
| "add_num a b = Inl TypeError"

fun sum_from :: "json \<Rightarrow> json list \<Rightarrow> py_exc + json" where
  "sum_from acc [] = Inr acc"
| "sum_from acc (v # vs) = and_then (add_num acc v) (\<lambda>acc'. sum_from acc' vs)"

definition py_sum :: "json list \<Rightarrow> py_exc + json" where
  "py_sum vs = sum_from (JInt 0) vs"

definition sum_field :: "string \<Rightarrow> (string \<times> json) list list \<Rightarrow> py_exc + json" where
  "sum_field k items = py_sum (map (\<lambda>item. dict_get item k (JInt 0)) items)"

text \<open>
  Lines 166 to 174: the composite name first, then the five sums in the order
  \<^verbatim>\<open>portion_size\<close>, \<^verbatim>\<open>calories\<close>, \<^verbatim>\<open>protein\<close>, \<^verbatim>\<open>carbs\<close>, \<^verbatim>\<open>fats\<close>, each assigned to the first
  item.  No assignment changes a field that a later sum reads.
\<close>

definition merge_items :: "json list \<Rightarrow> py_exc + json" where
  "merge_items parsed_data =
     and_then (collect as_dict parsed_data) (\<lambda>items.
     and_then (collect as_str (map (\<lambda>item. dict_get item ''food_name'' (JStr [])) items)) (\<lambda>all_names.
     let food_data = AList.update ''food_name'' (JStr (join '' + '' all_names)) (hd items) in
     and_then (sum_field ''portion_size'' items) (\<lambda>s.
     let food_data = AList.update ''portion_size'' s food_data in
     and_then (sum_field ''calories'' items) (\<lambda>s.
     let food_data = AList.update ''calories'' s food_data in
     and_then (sum_field ''protein'' items) (\<lambda>s.
     let food_data = AList.update ''protein'' s food_data in
     and_then (sum_field ''carbs'' items) (\<lambda>s.
     let food_data = AList.update ''carbs'' s food_data in
     and_then (sum_field ''fats'' items) (\<lambda>s.
     Inr (JObj (AList.update ''fats'' s food_data)))))))))"

subsection \<open>\<^verbatim>\<open>analyze_food_with_ai\<close>\<close>

text \<open>
  The reply of the model is a text or a list of texts.  Lines 160 to 178 work on the
  parsed value, lines 144 to 158 produce it.

  Line 176, the branch of the empty array, reads
  \<^verbatim>\<open>raise ValueError(\"Nenhum alimento identificado na resposta\")\<close> with a backslash before
  each quote.  That is not a statement of Python: the file as committed is refused with a
  \<^verbatim>\<open>SyntaxError\<close> at this line.  What the branch does is therefore not taken from the file:
  its outcome is the parameter \<open>line_176\<close> of the functions below, and nothing is proved
  from a particular value of it.  The other branches are the file's.
\<close>

datatype llm_response = RText string | RList "string list"

definition normalize_parsed :: "py_exc + json \<Rightarrow> json \<Rightarrow> py_exc + json" where
  "normalize_parsed line_176 parsed_data =
     (case parsed_data of
        JArr items \<Rightarrow>
          (if length items > 0
           then (if length items > 1 then merge_items items else Inr (hd items))
           else line_176)
      | _ \<Rightarrow> Inr parsed_data)"

definition clean_text :: "string \<Rightarrow> string" where
  "clean_text response_text =
     (let response_text = strip response_text
      in if startswith response_text ''```'' then remove_fences response_text
         else response_text)"

definition normalize_response :: "py_exc + json \<Rightarrow> llm_response \<Rightarrow> py_exc + json" where
  "normalize_response line_176 response =
     (let response_text = (case response of
                             RList [] \<Rightarrow> []
                           | RList (x # xs) \<Rightarrow> x
                           | RText s \<Rightarrow> s)
      in and_then (json_loads (clean_text response_text)) (normalize_parsed line_176))"

text \<open>
  The whole function: the API key from the environment, the call of the model (its
  outcome is a parameter), the normalizer, and the handler that turns every exception
  into a 500.
\<close>

definition analyze_food_with_ai ::
  "py_exc + json \<Rightarrow> string option \<Rightarrow> py_exc + llm_response \<Rightarrow> http_error + json" where
  "analyze_food_with_ai line_176 api_key reply =
     (case (if api_key = None \<or> api_key = Some []
            then Inl (ValueError ''EMERGENT_LLM_KEY nao configurada'')
            else and_then reply (normalize_response line_176)) of
        Inl e \<Rightarrow> Inl (HTTPException 500 (Prefixed ''Erro ao analisar alimento: '' e))
      | Inr food_data \<Rightarrow> Inr food_data)"

section \<open>Error kinds of the specification, and example data\<close>

text \<open>
  The specification names three kinds of error.  It ties \<open>NotFound\<close> to the status 404 and
  \<open>UpstreamFailure\<close> to the status 500 with the underlying message in the detail.  Every
  other status is read here as a \<open>ValidationFailure\<close>, the kind the specification leaves
  without a status.
\<close>

datatype error_kind = NotFound | ValidationFailure | UpstreamFailure

definition spec_error_kind :: "http_error \<Rightarrow> error_kind" where
  "spec_error_kind e =
     (if status_code e = 404 then NotFound
      else if status_code e = 500 then UpstreamFailure
      else ValidationFailure)"

text \<open>Documents and requests used in the examples below.\<close>

definition rice_meal :: meal_doc where
  "rice_meal =
     \<lparr>meal_id = ''m1'', user_id = ''u1'', date = ''2024-01-01'', time = ''12:30'',
      food_name = ''arroz'', portion_size = Fin 100, calories = Fin 200, protein = Fin 4,
      carbs = Fin 44, fats = Fin 1, image_base64 = None, created_at = 0\<rparr>"

definition empty_plate :: meal_doc where
  "empty_plate = rice_meal\<lparr>meal_id := ''m0'', portion_size := Fin 0\<rparr>"

definition stored_profile :: "UserProfile list \<Rightarrow> string \<Rightarrow> UserProfile option" where
  "stored_profile users uid = find_one (\<lambda>d. UserProfile.user_id d = uid) users"

definition ana :: UserProfile where
  "ana =
     \<lparr>UserProfile.user_id = ''u1'', name = ''Ana'', age = 30, gender = ''masculino'', height = Fin 175,
      weight = Fin 70, activity_level = ''sedentario'', goal_weight = Fin 70,
      daily_calorie_goal = Some (Fin 9999), UserProfile.created_at = None\<rparr>"


definition jan_first :: meal_doc where
  "jan_first = rice_meal\<lparr>meal_id := ''m2'', date := ''2024-01-01'', calories := Fin 250\<rparr>"

definition jan_one :: meal_doc where
  "jan_one = rice_meal\<lparr>meal_id := ''m3'', date := ''2024-01-1'', calories := Fin 120\<rparr>"

definition toast :: meal_doc where
  "toast =
     rice_meal\<lparr>meal_id := ''m5'', date := ''2024-01-01'', food_name := ''torrada'',
       calories := Fin 80, protein := lit 0.1, carbs := Fin 15, fats := lit 0.7\<rparr>"

definition butter :: meal_doc where
  "butter =
     rice_meal\<lparr>meal_id := ''m6'', date := ''2024-01-01'', food_name := ''manteiga'',
       calories := Fin 72, protein := lit 0.2, carbs := Fin 0, fats := Fin 8\<rparr>"

definition old_meal :: meal_doc where
  "old_meal = rice_meal\<lparr>meal_id := ''m4'', date := ''1999-12-31''\<rparr>"

text \<open>
  The group that the date string \<open>d\<close> has among the meals \<open>meals\<close>, as the specification
  describes it: the meals whose stored date string is literally \<open>d\<close>, in their order, with
  the four sums over exactly these meals, added from the left starting from zero.
\<close>

definition group_of :: "meal_doc list \<Rightarrow> string \<Rightarrow> history_group" where
  "group_of meals d =
     (let members = filter (\<lambda>m. date m = d) meals
      in \<lparr>group_date = d, group_meals = members,
          total_calories = foldl fadd (Fin 0) (map calories members),
          total_protein = foldl fadd (Fin 0) (map protein members),
          total_carbs = foldl fadd (Fin 0) (map carbs members),
          total_fats = foldl fadd (Fin 0) (map fats members)\<rparr>)"

text \<open>
  \<open>has_fence s\<close>: three backticks in a row occur somewhere in \<open>s\<close>.  The texts below are
  replies of the model; \<open>int_field\<close> reads a numeric field the way the specification
  describes the sum (a missing field counts as 0), for dictionaries whose value under the
  key, when there is one, is an integer.
\<close>

fun has_fence :: "string \<Rightarrow> bool" where
  "has_fence [] = False"
| "has_fence (c # cs) = (startswith (c # cs) ''```'' \<or> has_fence cs)"

definition fenced_rice :: string where
  \<open>fenced_rice = ''```json\<newline>{"food_name":"rice","calories":200}\<newline>```''\<close>

definition fenced_python :: string where
  \<open>fenced_python = ''```python\<newline>{"food_name":"rice","calories":200}\<newline>```''\<close>

definition two_foods :: string where
  \<open>two_foods = ''[{"food_name":"A","calories":100},{"food_name":"B","calories":150}]''\<close>

definition null_calories :: string where
  \<open>null_calories = ''[{"food_name":"A","calories":100},{"food_name":"B","calories":null}]''\<close>

definition padded_rice :: string where
  \<open>padded_rice =
     [CHR 0xC2, CHR 0xA0] @ ''```json'' @ [CHR 0xE3, CHR 0x80, CHR 0x80] @
     ''{"food_name":"rice","calories":200}\<newline>```'' @ [CHR 0xC2, CHR 0xA0, CHR 0x0A]\<close>

definition number_name :: string where
  \<open>number_name = ''[{"food_name":"A","calories":100},{"food_name":7}]''\<close>

text \<open>
  The examples need a value for the outcome of line 176, which none of them reaches:
  the \<^verbatim>\<open>raise\<close> that the line spells once its backslashes are taken away.
\<close>

definition intended_176 :: "py_exc + json" where
  "intended_176 = Inl (ValueError ''Nenhum alimento identificado na resposta'')"

text \<open>The values that \<^verbatim>\<open>sum\<close> adds: numbers, and the booleans, which count as 1 and 0.\<close>

definition is_number :: "json \<Rightarrow> bool" where
  "is_number v = (case v of JInt n \<Rightarrow> True | JFloat x \<Rightarrow> True | JBool b \<Rightarrow> True | _ \<Rightarrow> False)"

definition int_field :: "(string \<times> json) list \<Rightarrow> string \<Rightarrow> int" where
  "int_field d k = (case map_of d k of Some (JInt n) \<Rightarrow> n | _ \<Rightarrow> 0)"

definition int_or_missing :: "string \<Rightarrow> (string \<times> json) list \<Rightarrow> bool" where
  "int_or_missing k d = (case map_of d k of None \<Rightarrow> True | Some (JInt n) \<Rightarrow> True | _ \<Rightarrow> False)"

definition food_a :: "(string \<times> json) list" where
  "food_a = [(''food_name'', JStr ''A''), (''calories'', JInt 100)]"

definition food_b :: "(string \<times> json) list" where
  "food_b = [(''food_name'', JStr ''B''), (''calories'', JInt 150)]"

definition food_seven :: "(string \<times> json) list" where
  "food_seven = [(''food_name'', JInt 7)]"

definition food_null :: "(string \<times> json) list" where
  "food_null = [(''food_name'', JStr ''B''), (''calories'', JNull)]"

section \<open>Properties of the float operations\<close>

lemma flt_asym: "flt a b \<Longrightarrow> \<not> flt b a"
  by (cases a; cases b) auto

lemma flt_irrefl: "\<not> flt a a"
  by (cases a) auto

text \<open>Unfolding these evaluates float arithmetic on numerals.\<close>

lemmas float_eval = rnd_def lit_def round_binary64_def ulp_exp_def binade.simps round_half_even_def
  max_float_def Let_def float_of_int_def fsub_def

lemma lower_masculino: "lower ''masculino'' = ''masculino''"
  by (simp add: lower_def lower_char_def)

subsection \<open>Rounding is monotone\<close>

lemma round_half_even_of_int [simp]: "round_half_even (of_int n) = n"
  by (simp add: round_half_even_def)

lemma round_half_even_bounds: "\<lfloor>x\<rfloor> \<le> round_half_even x \<and> round_half_even x \<le> \<lfloor>x\<rfloor> + 1"
  by (simp add: round_half_even_def Let_def)

lemma round_half_even_near: "\<bar>x - of_int (round_half_even x)\<bar> \<le> 1 / 2"
proof -
  have "of_int \<lfloor>x\<rfloor> \<le> x" "x < of_int \<lfloor>x\<rfloor> + 1" by linarith+
  then show ?thesis
    by (auto simp: round_half_even_def Let_def abs_le_iff)
qed

lemma round_half_even_mono:
  assumes "x \<le> y"
  shows "round_half_even x \<le> round_half_even y"
proof (cases "\<lfloor>x\<rfloor> = \<lfloor>y\<rfloor>")
  case True
  then have "x - of_int \<lfloor>x\<rfloor> \<le> y - of_int \<lfloor>y\<rfloor>" using assms by simp
  then show ?thesis using True
    by (auto simp: round_half_even_def Let_def)
next
  case False
  then have "\<lfloor>x\<rfloor> < \<lfloor>y\<rfloor>" using assms floor_mono [of x y] by linarith
  then show ?thesis
    using round_half_even_bounds [of x] round_half_even_bounds [of y] by linarith
qed

lemma round_half_even_uminus: "round_half_even (- x) = - round_half_even x"
proof (cases "x = of_int \<lfloor>x\<rfloor>")
  case True
  then obtain n where "x = of_int n" ..
  then have "- x = of_int (- n)" by simp
  then show ?thesis using \<open>x = of_int n\<close> round_half_even_of_int by metis
next
  case False
  then have fl: "\<lfloor>- x\<rfloor> = - \<lfloor>x\<rfloor> - 1"
    by (metis ceiling_def ceiling_altdef diff_minus_eq_add minus_diff_eq add.inverse_inverse  uminus_add_conv_diff)
  show ?thesis
    unfolding round_half_even_def Let_def fl
    by (auto simp: field_simps)
qed

lemma binade_bounds:
  "0 < x \<Longrightarrow> 2 powi (binade x) \<le> x \<and> x < 2 powi (binade x + 1)"
proof (induction x rule: binade.induct)
  case (1 x)
  show ?case
  proof (cases "2 \<le> x")
    case True
    then have b: "binade x = binade (x / 2) + 1" by (subst binade.simps) simp
    have "2 powi binade (x / 2) \<le> x / 2 \<and> x / 2 < 2 powi (binade (x / 2) + 1)"
      using 1 True by simp
    then show ?thesis unfolding b by (simp add: power_int_add field_simps)
  next
    case False
    show ?thesis
    proof (cases "x < 1")
      case True
      then have b: "binade x = binade (2 * x) - 1" using 1(3) False by (subst binade.simps) simp
      have "2 powi binade (2 * x) \<le> 2 * x \<and> 2 * x < 2 powi (binade (2 * x) + 1)"
        using 1 True False by simp
      then show ?thesis unfolding b by (simp add: power_int_add power_int_diff field_simps)
    next
      case ge: False
      then have b: "binade x = 0" using 1(3) False by (subst binade.simps) simp
      show ?thesis unfolding b using False ge by simp
    qed
  qed
qed

lemma round_binary64_alt:
  "round_binary64 x = (if x = 0 then 0 else 2 powi ulp_exp x * of_int (round_half_even (x / 2 powi ulp_exp x)))"
  by (simp add: round_binary64_def Let_def)

lemma round_binary64_uminus: "round_binary64 (- x) = - round_binary64 x"
  by (simp add: round_binary64_def ulp_exp_def Let_def round_half_even_uminus)

lemma round_binary64_zero [simp]: "round_binary64 0 = 0"
  by (simp add: round_binary64_def)

lemma round_half_even_nonneg: "0 \<le> x \<Longrightarrow> 0 \<le> round_half_even x"
  using round_half_even_mono [of 0 x] round_half_even_of_int [of 0] by simp

lemma round_binary64_nonneg: "0 \<le> x \<Longrightarrow> 0 \<le> round_binary64 x"
  by (simp add: round_binary64_def Let_def round_half_even_nonneg)

lemma binade_mono:
  assumes "0 < x" "x \<le> y"
  shows "binade x \<le> binade y"
proof -
  have "2 powi binade x \<le> x" using binade_bounds [of x] assms by simp
  also have "x \<le> y" by fact
  also have "y < 2 powi (binade y + 1)" using binade_bounds [of y] assms by simp
  finally have "(2::real) powi binade x < 2 powi (binade y + 1)" .
  then have "\<not> binade y + 1 \<le> binade x"
    using power_int_increasing [of "binade y + 1" "binade x" "2::real"] by auto
  then show ?thesis by simp
qed

lemma round_half_even_power2 [simp]: "round_half_even (2 ^ k) = 2 ^ k"
  using round_half_even_of_int [of "2 ^ k"] by simp

lemma round_half_even_numeral [simp]: "round_half_even (numeral n) = numeral n"
  using round_half_even_of_int [of "numeral n"] by simp

lemma round_binary64_mono_pos:
  assumes "0 < x" "x \<le> y"
  shows "round_binary64 x \<le> round_binary64 y"
proof -
  have ypos: "0 < y" using assms by simp
  define ex where "ex = ulp_exp x"
  define ey where "ey = ulp_exp y"
  have fx: "round_binary64 x = 2 powi ex * of_int (round_half_even (x / 2 powi ex))"
    using assms by (simp add: round_binary64_alt ex_def)
  have fy: "round_binary64 y = 2 powi ey * of_int (round_half_even (y / 2 powi ey))"
    using ypos by (simp add: round_binary64_alt ey_def)
  have bm: "binade x \<le> binade y" using assms by (rule binade_mono)
  have le: "ex \<le> ey" using bm assms ypos by (simp add: ex_def ey_def ulp_exp_def)
  show ?thesis
  proof (cases "ex = ey")
    case True
    have "x / 2 powi ey \<le> y / 2 powi ey" using assms by (simp add: divide_right_mono)
    then have "round_half_even (x / 2 powi ey) \<le> round_half_even (y / 2 powi ey)"
      by (rule round_half_even_mono)
    then show ?thesis unfolding fx fy True by simp
  next
    case False
    then have lt: "ex < ey" using le by simp
    have ey': "ey = binade y - 52" using lt ypos by (auto simp: ex_def ey_def ulp_exp_def)
    have "binade x - 52 \<le> ex" using assms by (simp add: ex_def ulp_exp_def)
    then have bx: "binade x + 1 \<le> binade y" using lt ey' by simp
    define B :: real where "B = 2 powi binade y"
    have xB: "x \<le> B"
    proof -
      have "x < 2 powi (binade x + 1)" using binade_bounds [of x] assms by simp
      also have "\<dots> \<le> B" unfolding B_def using bx by (simp add: power_int_increasing)
      finally show ?thesis by simp
    qed
    have By: "B \<le> y" unfolding B_def using binade_bounds [of y] ypos by simp
    define k where "k = nat (binade y - ex)"
    have kk: "binade y - ex = int k" using lt ey' by (simp add: k_def)
    have Bx: "B / 2 powi ex = 2 ^ k"
      unfolding B_def using kk by (simp add: power_int_diff [symmetric])
    have "x / 2 powi ex \<le> B / 2 powi ex" using xB by (simp add: divide_right_mono)
    then have "round_half_even (x / 2 powi ex) \<le> round_half_even (B / 2 powi ex)"
      by (rule round_half_even_mono)
    then have "round_half_even (x / 2 powi ex) \<le> 2 ^ k" unfolding Bx by simp
    then have "of_int (round_half_even (x / 2 powi ex)) \<le> (of_int (2 ^ k) :: real)"
      by (simp only: of_int_le_iff)
    then have "of_int (round_half_even (x / 2 powi ex)) \<le> (2 ^ k :: real)"
      by simp
    then have "round_binary64 x \<le> 2 powi ex * (B / 2 powi ex)"
      unfolding fx Bx by (simp add: mult_left_mono)
    then have 1: "round_binary64 x \<le> B" by simp
    have B52: "B / 2 powi ey = 2 ^ 52"
      unfolding B_def ey' by (simp add: power_int_diff [symmetric])
    have "B / 2 powi ey \<le> y / 2 powi ey" using By by (simp add: divide_right_mono)
    then have "round_half_even (B / 2 powi ey) \<le> round_half_even (y / 2 powi ey)"
      by (rule round_half_even_mono)
    then have "2 ^ 52 \<le> round_half_even (y / 2 powi ey)" unfolding B52 by simp
    then have "(of_int (2 ^ 52) :: real) \<le> of_int (round_half_even (y / 2 powi ey))"
      by (simp only: of_int_le_iff)
    then have "(2 ^ 52 :: real) \<le> of_int (round_half_even (y / 2 powi ey))"
      by simp
    then have "2 powi ey * (B / 2 powi ey) \<le> round_binary64 y"
      unfolding fy B52 by (simp add: mult_left_mono)
    then have 2: "B \<le> round_binary64 y" by simp
    from 1 2 show ?thesis by simp
  qed
qed

lemma round_binary64_mono:
  assumes "x \<le> y"
  shows "round_binary64 x \<le> round_binary64 y"
proof -
  consider "0 < x" | "x \<le> 0" "0 \<le> y" | "y < 0" by linarith
  then show ?thesis
  proof cases
    case 1
    then show ?thesis using assms by (rule round_binary64_mono_pos)
  next
    case 2
    have "round_binary64 x \<le> 0"
      using round_binary64_nonneg [of "- x"] 2 by (simp add: round_binary64_uminus)
    moreover have "0 \<le> round_binary64 y" using 2 by (simp add: round_binary64_nonneg)
    ultimately show ?thesis by simp
  next
    case 3
    then have "round_binary64 (- y) \<le> round_binary64 (- x)"
      using assms by (intro round_binary64_mono_pos) simp_all
    then show ?thesis by (simp add: round_binary64_uminus)
  qed
qed

lemma rnd_eq_Fin: "rnd x = Fin a \<Longrightarrow> a = round_binary64 x"
  by (simp add: rnd_def Let_def split: if_splits)

lemma fadd_eq_Fin:
  "fadd p q = Fin r \<Longrightarrow> \<exists>x y. p = Fin x \<and> q = Fin y \<and> r = round_binary64 (x + y)"
  by (cases p; cases q) (auto dest: rnd_eq_Fin)

lemma fmul_eq_Fin:
  "fmul p q = Fin r \<Longrightarrow> \<exists>x y. p = Fin x \<and> q = Fin y \<and> r = round_binary64 (x * y)"
  by (cases p; cases q) (auto dest: rnd_eq_Fin split: if_splits)

lemma fsub_eq_Fin:
  "fsub p q = Fin r \<Longrightarrow> \<exists>x y. p = Fin x \<and> q = Fin y \<and> r = round_binary64 (x - y)"
  unfolding fsub_def by (cases q) (auto dest!: fadd_eq_Fin)

lemma lit_nonneg: "0 \<le> k \<Longrightarrow> lit k = Fin c \<Longrightarrow> 0 \<le> c"
  unfolding lit_def by (auto dest!: rnd_eq_Fin intro: round_binary64_nonneg)

lemma float_of_int_eq: "float_of_int i = Inr a \<Longrightarrow> a = Fin (round_binary64 (of_int i))"
  by (cases "rnd (of_int i)") (auto simp: float_of_int_def dest: rnd_eq_Fin)

text \<open>The shape shared by both branches of the Harris-Benedict formula.\<close>

lemma harris_benedict_value:
  assumes "fsub (fadd (fadd (lit k0) (fmul (lit k1) (Fin w))) (fmul (lit k2) (Fin h)))
                (fmul (lit k3) (Fin a)) = Fin r"
  shows "\<exists>c0 c1 c2 c3. lit k0 = Fin c0 \<and> lit k1 = Fin c1 \<and> lit k2 = Fin c2 \<and> lit k3 = Fin c3 \<and>
           r = round_binary64
                 (round_binary64 (round_binary64 (c0 + round_binary64 (c1 * w))
                                  + round_binary64 (c2 * h))
                  - round_binary64 (c3 * a))"
proof -
  from assms obtain s t where
    s: "fadd (fadd (lit k0) (fmul (lit k1) (Fin w))) (fmul (lit k2) (Fin h)) = Fin s" and
    t: "fmul (lit k3) (Fin a) = Fin t" and r: "r = round_binary64 (s - t)"
    by (blast dest: fsub_eq_Fin)
  from t obtain c3 where c3: "lit k3 = Fin c3" "t = round_binary64 (c3 * a)"
    by (auto dest: fmul_eq_Fin)
  from s obtain p q where
    p: "fadd (lit k0) (fmul (lit k1) (Fin w)) = Fin p" and
    q: "fmul (lit k2) (Fin h) = Fin q" and s': "s = round_binary64 (p + q)"
    by (blast dest: fadd_eq_Fin)
  from q obtain c2 where c2: "lit k2 = Fin c2" "q = round_binary64 (c2 * h)"
    by (auto dest: fmul_eq_Fin)
  from p obtain c0 m where c0: "lit k0 = Fin c0" and m: "fmul (lit k1) (Fin w) = Fin m"
    and p': "p = round_binary64 (c0 + m)"
    by (blast dest: fadd_eq_Fin)
  from m obtain c1 where c1: "lit k1 = Fin c1" "m = round_binary64 (c1 * w)"
    by (auto dest: fmul_eq_Fin)
  show ?thesis using c0 c1 c2 c3 r s' p' by auto
qed

lemma harris_benedict_mono:
  assumes k: "0 \<le> k1" "0 \<le> k2" "0 \<le> k3"
    and 1: "fsub (fadd (fadd (lit k0) (fmul (lit k1) (Fin w1))) (fmul (lit k2) (Fin h1)))
                 (fmul (lit k3) (Fin a1)) = Fin r1"
    and 2: "fsub (fadd (fadd (lit k0) (fmul (lit k1) (Fin w2))) (fmul (lit k2) (Fin h2)))
                 (fmul (lit k3) (Fin a2)) = Fin r2"
    and le: "w1 \<le> w2" "h1 \<le> h2" "a2 \<le> a1"
  shows "r1 \<le> r2"
proof -
  from harris_benedict_value [OF 1] harris_benedict_value [OF 2]
  obtain c0 c1 c2 c3 where c: "lit k0 = Fin c0" "lit k1 = Fin c1" "lit k2 = Fin c2" "lit k3 = Fin c3"
    and r1: "r1 = round_binary64
                 (round_binary64 (round_binary64 (c0 + round_binary64 (c1 * w1))
                                  + round_binary64 (c2 * h1))
                  - round_binary64 (c3 * a1))"
    and r2: "r2 = round_binary64
                 (round_binary64 (round_binary64 (c0 + round_binary64 (c1 * w2))
                                  + round_binary64 (c2 * h2))
                  - round_binary64 (c3 * a2))"
    by auto
  have pos: "0 \<le> c1" "0 \<le> c2" "0 \<le> c3" using k c by (auto dest: lit_nonneg)
  have "round_binary64 (c1 * w1) \<le> round_binary64 (c1 * w2)"
    using pos le by (intro round_binary64_mono mult_left_mono)
  then have a: "round_binary64 (c0 + round_binary64 (c1 * w1))
              \<le> round_binary64 (c0 + round_binary64 (c1 * w2))"
    by (intro round_binary64_mono) simp
  have b: "round_binary64 (c2 * h1) \<le> round_binary64 (c2 * h2)"
    using pos le by (intro round_binary64_mono mult_left_mono)
  have d: "round_binary64 (c3 * a2) \<le> round_binary64 (c3 * a1)"
    using pos le by (intro round_binary64_mono mult_left_mono)
  have "round_binary64 (round_binary64 (c0 + round_binary64 (c1 * w1)) + round_binary64 (c2 * h1))
      \<le> round_binary64 (round_binary64 (c0 + round_binary64 (c1 * w2)) + round_binary64 (c2 * h2))"
    by (rule round_binary64_mono, rule add_mono [OF a b])
  then show ?thesis unfolding r1 r2 by (rule round_binary64_mono [OF diff_mono [OF _ d]])
qed

lemma calculate_bmr_mono:
  assumes 1: "calculate_bmr (Fin w1) (Fin h1) a1 g = Inr (Fin r1)"
    and 2: "calculate_bmr (Fin w2) (Fin h2) a2 g = Inr (Fin r2)"
    and le: "w1 \<le> w2" "h1 \<le> h2" "a2 \<le> a1"
  shows "r1 \<le> r2"
proof -
  define b1 where "b1 = round_binary64 (of_int a1)"
  define b2 where "b2 = round_binary64 (of_int a2)"
  have f1: "float_of_int a1 = Inr (Fin b1)" and f2: "float_of_int a2 = Inr (Fin b2)"
    using 1 2 unfolding b1_def b2_def calculate_bmr_def
    by (auto split: sum.splits dest: float_of_int_eq)
  have b: "b2 \<le> b1" unfolding b1_def b2_def using le by (intro round_binary64_mono) simp
  show ?thesis
  proof (cases "lower g = ''masculino''")
    case True
    show ?thesis
      using 1 2 unfolding calculate_bmr_def f1 f2
      by (simp add: True) (rule harris_benedict_mono [where ?k1.0 = "13.397" and ?k2.0 = "4.799" and ?k3.0 = "5.677", OF _ _ _ _ _ le(1,2) b]; simp)
  next
    case False
    show ?thesis
      using 1 2 unfolding calculate_bmr_def f1 f2
      by (simp add: False) (rule harris_benedict_mono [where ?k1.0 = "9.247" and ?k2.0 = "3.098" and ?k3.0 = "4.330", OF _ _ _ _ _ le(1,2) b]; simp)
  qed
qed

section \<open>Total daily energy expenditure\<close>

text \<open>
  C7.  For every \<open>bmr\<close> and every activity level string, \<open>calculate_tdee\<close> is \<open>bmr\<close> times
  the multiplier that the table gives for the lower-cased string (so the match ignores
  case), and \<open>bmr * 1.2\<close> for every string that is not in the table; in particular
  \<open>calculate_tdee bmr ''sedentario''\<close> is \<open>bmr * 1.2\<close>.  The product is Python's float
  product and the multipliers are the float literals of the table.
\<close>

theorem calculate_tdee_table:
  "calculate_tdee bmr level =
     fmul bmr (lit (if lower level = ''sedentario'' then 1.2
                    else if lower level = ''leve'' then 1.375
                    else if lower level = ''moderado'' then 1.55
                    else if lower level = ''intenso'' then 1.725
                    else if lower level = ''muito_intenso'' then 1.9
                    else 1.2)) \<and>
   calculate_tdee bmr ''sedentario'' = fmul bmr (lit 1.2) \<and>
   (lower level \<notin> {''sedentario'', ''leve'', ''moderado'', ''intenso'', ''muito_intenso''} \<longrightarrow>
      calculate_tdee bmr level = fmul bmr (lit 1.2))"
proof -
  have table: "calculate_tdee bmr level =
     fmul bmr (lit (if lower level = ''sedentario'' then 1.2
                    else if lower level = ''leve'' then 1.375
                    else if lower level = ''moderado'' then 1.55
                    else if lower level = ''intenso'' then 1.725
                    else if lower level = ''muito_intenso'' then 1.9
                    else 1.2))" for level
    by (simp add: calculate_tdee_def dict_get_def activity_multipliers_def)
  have low: "lower ''sedentario'' = ''sedentario''"
    by (simp add: lower_def lower_char_def)
  show ?thesis
    using table [of level] table [of "''sedentario''"] by (simp add: low)
qed

theorem calculate_tdee_table_witness:
  "lower ''correndo'' \<notin> {''sedentario'', ''leve'', ''moderado'', ''intenso'', ''muito_intenso''} \<and>
   calculate_tdee (Fin 2000) ''correndo'' = Fin 2400 \<and>
   calculate_tdee (Fin 2000) ''Muito_Intenso'' = Fin 3800 \<and>
   calculate_tdee (Fin 2000) ''LEVE'' = Fin 2750"
  using calculate_tdee_table [of "Fin 2000" "''correndo''"]
    calculate_tdee_table [of "Fin 2000" "''Muito_Intenso''"]
    calculate_tdee_table [of "Fin 2000" "''LEVE''"]
  by (simp add: lower_def lower_char_def float_eval)

section \<open>Basal metabolic rate\<close>

text \<open>
  C8 (as amended).  For all weights, heights and ages (the positive ones among them) for
  which \<open>calculate_bmr\<close> returns a finite number, the result is non-decreasing in the
  weight, non-decreasing in the height and non-increasing in the age, whichever gender
  branch is taken.  The order is not strict: every operation rounds to a double, and a
  small change of an input can vanish in the rounding.
\<close>

theorem calculate_bmr_monotone:
  "(calculate_bmr (Fin w1) (Fin h) a g = Inr (Fin r1) \<and>
    calculate_bmr (Fin w2) (Fin h) a g = Inr (Fin r2) \<and> w1 \<le> w2 \<longrightarrow> r1 \<le> r2) \<and>
   (calculate_bmr (Fin w) (Fin h1) a g = Inr (Fin r1) \<and>
    calculate_bmr (Fin w) (Fin h2) a g = Inr (Fin r2) \<and> h1 \<le> h2 \<longrightarrow> r1 \<le> r2) \<and>
   (calculate_bmr (Fin w) (Fin h) a1 g = Inr (Fin r1) \<and>
    calculate_bmr (Fin w) (Fin h) a2 g = Inr (Fin r2) \<and> a1 \<le> a2 \<longrightarrow> r2 \<le> r1)"
proof (intro conjI impI)
  assume "calculate_bmr (Fin w1) (Fin h) a g = Inr (Fin r1) \<and>
    calculate_bmr (Fin w2) (Fin h) a g = Inr (Fin r2) \<and> w1 \<le> w2"
  then show "r1 \<le> r2" by (blast intro: calculate_bmr_mono order_refl)
next
  assume "calculate_bmr (Fin w) (Fin h1) a g = Inr (Fin r1) \<and>
    calculate_bmr (Fin w) (Fin h2) a g = Inr (Fin r2) \<and> h1 \<le> h2"
  then show "r1 \<le> r2" by (blast intro: calculate_bmr_mono order_refl)
next
  assume "calculate_bmr (Fin w) (Fin h) a1 g = Inr (Fin r1) \<and>
    calculate_bmr (Fin w) (Fin h) a2 g = Inr (Fin r2) \<and> a1 \<le> a2"
  then show "r2 \<le> r1" by (blast intro: calculate_bmr_mono order_refl)
qed

lemma bmr_m_60_170_30:
  "calculate_bmr (Fin 60) (Fin 170) 30 ''masculino'' = Inr (Fin (1690721229054411 / 1099511627776))"
  by (simp add: calculate_bmr_def lower_masculino float_eval)

lemma bmr_m_80_170_30:
  "calculate_bmr (Fin 80) (Fin 170) 30 ''masculino'' = Inr (Fin (3970648749201425 / 2199023255552))"
  by (simp add: calculate_bmr_def lower_masculino float_eval)

lemma bmr_m_60_180_30:
  "calculate_bmr (Fin 60) (Fin 180) 30 ''masculino'' = Inr (Fin (1743486792071381 / 1099511627776))"
  by (simp add: calculate_bmr_def lower_masculino float_eval)

lemma bmr_m_60_170_40:
  "calculate_bmr (Fin 60) (Fin 170) 40 ''masculino'' = Inr (Fin (3256603907891135 / 2199023255552))"
  by (simp add: calculate_bmr_def lower_masculino float_eval)

theorem calculate_bmr_monotone_witness:
  "calculate_bmr (Fin 60) (Fin 170) 30 ''masculino'' = Inr (Fin (1690721229054411 / 1099511627776)) \<and>
   calculate_bmr (Fin 80) (Fin 170) 30 ''masculino'' = Inr (Fin (3970648749201425 / 2199023255552)) \<and>
   calculate_bmr (Fin 60) (Fin 180) 30 ''masculino'' = Inr (Fin (1743486792071381 / 1099511627776)) \<and>
   calculate_bmr (Fin 60) (Fin 170) 40 ''masculino'' = Inr (Fin (3256603907891135 / 2199023255552)) \<and>
   (60 :: real) \<le> 80 \<and> (170 :: real) \<le> 180 \<and> (30 :: int) \<le> 40 \<and>
   (1690721229054411 / 1099511627776 :: real) \<le> 3970648749201425 / 2199023255552 \<and>
   (1690721229054411 / 1099511627776 :: real) \<le> 1743486792071381 / 1099511627776 \<and>
   (3256603907891135 / 2199023255552 :: real) \<le> 1690721229054411 / 1099511627776"
  using calculate_bmr_monotone [of 60 170 30 "''masculino''" "1690721229054411 / 1099511627776"
      80 "3970648749201425 / 2199023255552"]
    bmr_m_60_170_30 bmr_m_80_170_30 bmr_m_60_180_30 bmr_m_60_170_40
  by simp

text \<open>
  The claim as the specification states it asks for a strict order.  It fails in each
  argument: the weights \<open>2 powi (- 70)\<close> and \<open>2 powi (- 69)\<close> give the same rate in the
  \<^verbatim>\<open>masculino\<close> branch, so do these two heights in the other branch, and so do the ages 1
  and 2 at the weight \<open>2 ^ 60\<close>.
\<close>

theorem calculate_bmr_not_strict:
  "(0 :: real) < 1 / 2 ^ 70 \<and> (1 / 2 ^ 70 :: real) < 1 / 2 ^ 69 \<and>
   calculate_bmr (Fin (1 / 2 ^ 70)) (Fin 170) 30 ''masculino''
     = Inr (Fin (1613823584831013 / 2199023255552)) \<and>
   calculate_bmr (Fin (1 / 2 ^ 69)) (Fin 170) 30 ''masculino''
     = Inr (Fin (1613823584831013 / 2199023255552)) \<and>
   calculate_bmr (Fin 70) (Fin (1 / 2 ^ 70)) 30 ''feminino''
     = Inr (Fin (8488080232849343 / 8796093022208)) \<and>
   calculate_bmr (Fin 70) (Fin (1 / 2 ^ 69)) 30 ''feminino''
     = Inr (Fin (8488080232849343 / 8796093022208)) \<and>
   (1 :: int) < 2 \<and>
   calculate_bmr (Fin (2 ^ 60)) (Fin 170) 1 ''masculino'' = Inr (Fin 15445689397217929216) \<and>
   calculate_bmr (Fin (2 ^ 60)) (Fin 170) 2 ''masculino'' = Inr (Fin 15445689397217929216)"
  by (simp add: calculate_bmr_def lower_def lower_char_def float_eval)

section \<open>The calorie goal\<close>

text \<open>
  C1.  For every \<open>tdee\<close>, \<open>current_weight\<close> and \<open>goal_weight\<close> the daily calorie goal is
  \<open>tdee - 500\<close> when the goal weight is below the current weight, \<open>tdee + 300\<close> when it is
  above, and \<open>tdee\<close> itself when the two are equal.  The result is always one of these
  three values: there is no further outcome and the value is never clamped.
\<close>

theorem calculate_daily_calorie_goal_cases:
  "(flt goal current \<longrightarrow>
      calculate_daily_calorie_goal tdee current goal = fsub tdee (Fin 500)) \<and>
   (fgt goal current \<longrightarrow>
      calculate_daily_calorie_goal tdee current goal = fadd tdee (Fin 300)) \<and>
   (feq goal current \<longrightarrow>
      calculate_daily_calorie_goal tdee current goal = tdee) \<and>
   calculate_daily_calorie_goal tdee current goal
     \<in> {fsub tdee (Fin 500), fadd tdee (Fin 300), tdee}"
proof -
  have below: "flt goal current \<Longrightarrow> \<not> fgt goal current"
    by (simp add: fgt_def flt_asym)
  have equal: "feq goal current \<Longrightarrow>
      \<not> flt goal current \<and> \<not> fgt goal current"
    by (auto simp: feq_def fgt_def flt_irrefl)
  show ?thesis
    using below equal by (auto simp: calculate_daily_calorie_goal_def)
qed

theorem calculate_daily_calorie_goal_cases_witness:
  "flt (Fin 60) (Fin 70) \<and>
   calculate_daily_calorie_goal (Fin 2000) (Fin 70) (Fin 60) = Fin 1500 \<and>
   fgt (Fin 80) (Fin 70) \<and>
   calculate_daily_calorie_goal (Fin 2000) (Fin 70) (Fin 80) = Fin 2300 \<and>
   feq (Fin 70) (Fin 70) \<and>
   calculate_daily_calorie_goal (Fin 2000) (Fin 70) (Fin 70) = Fin 2000"
  using calculate_daily_calorie_goal_cases [of "Fin 60" "Fin 70" "Fin 2000"]
    calculate_daily_calorie_goal_cases [of "Fin 80" "Fin 70" "Fin 2000"]
    calculate_daily_calorie_goal_cases [of "Fin 70" "Fin 70" "Fin 2000"]
  by (simp add: fgt_def feq_def float_eval)

section \<open>Portion adjustment\<close>

lemma find_one_update_one:
  assumes "find_one P ms = Some m" "P (f m)"
  shows "find_one P (update_one P f ms) = Some (f m)"
  using assms by (induction ms) (auto split: if_splits)

lemma find_one_holds: "find_one P ms = Some m \<Longrightarrow> P m"
  by (induction ms) (auto split: if_splits)

lemma fdiv_nonzero: "d \<noteq> Fin 0 \<Longrightarrow> \<exists>r. fdiv n d = Inr r"
  by (cases d; cases n) auto

lemma length_update_one [simp]: "length (update_one P f ms) = length ms"
  by (induction ms) auto

text \<open>
  C2.  For every stored meal whose \<open>portion_size\<close> is not zero and every new portion size,
  \<open>adjust_portion\<close> computes the ratio of the new to the stored portion size, multiplies
  each of the four stored nutrient values by that ratio, rounds each product to one
  decimal place, returns these values with the new portion size, and the stored meal
  carries exactly them afterwards.  The ratio of two finite values is the double nearest
  to their quotient, the product the double nearest to the exact product, and the
  rounding to one decimal place of a finite value \<open>v\<close> is the double nearest to \<open>k / 10\<close>
  for an integer \<open>k\<close> with \<open>\<bar>v * 10 - k\<bar> \<le> 1 / 2\<close>.  A meal with 200 calories at portion
  size 100, adjusted to 150, gets 300.0 calories.  The same meal, with 4 of protein, 44
  of carbohydrates and 1 of fats, adjusted to 33, gets the ratio 0.33 and the products
  66.0, 1.32, 14.520000000000001 and 0.33, which are stored as 66.0, 1.3, 14.5 and 0.3.
\<close>

theorem adjust_portion_scales:
  "(find_one (\<lambda>m. meal_id m = PortionAdjustment.meal_id adj) meals = Some meal \<and>
    portion_size meal \<noteq> Fin 0 \<longrightarrow>
      (\<exists>ratio. fdiv (new_portion_size adj) (portion_size meal) = Inr ratio \<and>
         fst (adjust_portion meals adj) =
           Inr \<lparr>new_portion = new_portion_size adj,
                new_calories = py_round (fmul (calories meal) ratio) 1,
                new_protein = py_round (fmul (protein meal) ratio) 1,
                new_carbs = py_round (fmul (carbs meal) ratio) 1,
                new_fats = py_round (fmul (fats meal) ratio) 1\<rparr> \<and>
         find_one (\<lambda>m. meal_id m = PortionAdjustment.meal_id adj) (snd (adjust_portion meals adj)) =
           Some (meal\<lparr>portion_size := new_portion_size adj,
                       calories := py_round (fmul (calories meal) ratio) 1,
                       protein := py_round (fmul (protein meal) ratio) 1,
                       carbs := py_round (fmul (carbs meal) ratio) 1,
                       fats := py_round (fmul (fats meal) ratio) 1\<rparr>))) \<and>
   (fdiv (Fin n) (Fin p) = Inr ratio \<longrightarrow> ratio = rnd (n / p)) \<and>
   fmul (Fin a) (Fin b) = rnd (a * b) \<and>
   (\<exists>k. py_round (Fin v) 1 = rnd (of_int k / 10) \<and> \<bar>v * 10 - of_int k\<bar> \<le> 1 / 2) \<and>
   adjust_portion [rice_meal] \<lparr>PortionAdjustment.meal_id = ''m1'', new_portion_size = Fin 150\<rparr> =
     (Inr \<lparr>new_portion = Fin 150, new_calories = Fin 300, new_protein = Fin 6,
           new_carbs = Fin 66, new_fats = Fin (3 / 2)\<rparr>,
      [rice_meal\<lparr>portion_size := Fin 150, calories := Fin 300, protein := Fin 6,
                  carbs := Fin 66, fats := Fin (3 / 2)\<rparr>]) \<and>
   fdiv (Fin 33) (Fin 100) = Inr (Fin (5944751508129055 / 18014398509481984)) \<and>
   fmul (Fin 4) (Fin (5944751508129055 / 18014398509481984)) =
     Fin (5944751508129055 / 4503599627370496) \<and>
   fmul (Fin 44) (Fin (5944751508129055 / 18014398509481984)) =
     Fin (8174033323677451 / 562949953421312) \<and>
   adjust_portion [rice_meal] \<lparr>PortionAdjustment.meal_id = ''m1'', new_portion_size = Fin 33\<rparr> =
     (Inr \<lparr>new_portion = Fin 33, new_calories = Fin 66,
           new_protein = Fin (5854679515581645 / 4503599627370496),
           new_carbs = Fin (29 / 2),
           new_fats = Fin (5404319552844595 / 18014398509481984)\<rparr>,
      [rice_meal\<lparr>portion_size := Fin 33, calories := Fin 66,
                  protein := Fin (5854679515581645 / 4503599627370496),
                  carbs := Fin (29 / 2),
                  fats := Fin (5404319552844595 / 18014398509481984)\<rparr>])"
proof (intro conjI impI)
  assume a: "find_one (\<lambda>m. meal_id m = PortionAdjustment.meal_id adj) meals = Some meal \<and>
    portion_size meal \<noteq> Fin 0"
  then obtain ratio where r: "fdiv (new_portion_size adj) (portion_size meal) = Inr ratio"
    using fdiv_nonzero by blast
  have id: "meal_id meal = PortionAdjustment.meal_id adj"
    using a find_one_holds [of "\<lambda>m. meal_id m = PortionAdjustment.meal_id adj" meals meal] by simp
  show "\<exists>ratio. fdiv (new_portion_size adj) (portion_size meal) = Inr ratio \<and>
         fst (adjust_portion meals adj) =
           Inr \<lparr>new_portion = new_portion_size adj,
                new_calories = py_round (fmul (calories meal) ratio) 1,
                new_protein = py_round (fmul (protein meal) ratio) 1,
                new_carbs = py_round (fmul (carbs meal) ratio) 1,
                new_fats = py_round (fmul (fats meal) ratio) 1\<rparr> \<and>
         find_one (\<lambda>m. meal_id m = PortionAdjustment.meal_id adj) (snd (adjust_portion meals adj)) =
           Some (meal\<lparr>portion_size := new_portion_size adj,
                       calories := py_round (fmul (calories meal) ratio) 1,
                       protein := py_round (fmul (protein meal) ratio) 1,
                       carbs := py_round (fmul (carbs meal) ratio) 1,
                       fats := py_round (fmul (fats meal) ratio) 1\<rparr>)"
    using a r id
    by (intro exI [of _ ratio]) (simp add: adjust_portion_def Let_def find_one_update_one apply_set_def)
next
  assume "fdiv (Fin n) (Fin p) = Inr ratio"
  then show "ratio = rnd (n / p)" by (simp split: if_splits)
next
  show "adjust_portion [rice_meal] \<lparr>PortionAdjustment.meal_id = ''m1'', new_portion_size = Fin 150\<rparr> =
     (Inr \<lparr>new_portion = Fin 150, new_calories = Fin 300, new_protein = Fin 6,
           new_carbs = Fin 66, new_fats = Fin (3 / 2)\<rparr>,
      [rice_meal\<lparr>portion_size := Fin 150, calories := Fin 300, protein := Fin 6,
                  carbs := Fin 66, fats := Fin (3 / 2)\<rparr>])"
    by (simp add: adjust_portion_def rice_meal_def apply_set_def float_eval)
next
  show "fmul (Fin a) (Fin b) = rnd (a * b)"
    by simp
next
  show "\<exists>k. py_round (Fin v) 1 = rnd (of_int k / 10) \<and> \<bar>v * 10 - of_int k\<bar> \<le> 1 / 2"
    using round_half_even_near [of "v * 10"]
    by (intro exI [of _ "round_half_even (v * 10)"]) simp
next
  show "fdiv (Fin 33) (Fin 100) = Inr (Fin (5944751508129055 / 18014398509481984))"
    by (simp add: float_eval)
next
  show "fmul (Fin 4) (Fin (5944751508129055 / 18014398509481984)) =
     Fin (5944751508129055 / 4503599627370496)"
    by (simp add: float_eval)
next
  show "fmul (Fin 44) (Fin (5944751508129055 / 18014398509481984)) =
     Fin (8174033323677451 / 562949953421312)"
    by (simp add: float_eval)
next
  show "adjust_portion [rice_meal] \<lparr>PortionAdjustment.meal_id = ''m1'', new_portion_size = Fin 33\<rparr> =
     (Inr \<lparr>new_portion = Fin 33, new_calories = Fin 66,
           new_protein = Fin (5854679515581645 / 4503599627370496),
           new_carbs = Fin (29 / 2),
           new_fats = Fin (5404319552844595 / 18014398509481984)\<rparr>,
      [rice_meal\<lparr>portion_size := Fin 33, calories := Fin 66,
                  protein := Fin (5854679515581645 / 4503599627370496),
                  carbs := Fin (29 / 2),
                  fats := Fin (5404319552844595 / 18014398509481984)\<rparr>])"
    by (simp add: adjust_portion_def rice_meal_def apply_set_def float_eval)
qed

theorem adjust_portion_scales_witness:
  "find_one (\<lambda>m. meal_id m = ''m1'') [rice_meal] = Some rice_meal \<and>
   portion_size rice_meal \<noteq> Fin 0 \<and>
   fdiv (Fin 33) (Fin 100) = Inr (Fin (5944751508129055 / 18014398509481984)) \<and>
   Fin (5944751508129055 / 18014398509481984) = rnd (33 / 100) \<and>
   py_round (Fin (5944751508129055 / 4503599627370496)) 1 =
     Fin (5854679515581645 / 4503599627370496) \<and>
   Fin (5854679515581645 / 4503599627370496) = rnd (13 / 10) \<and>
   \<bar>5944751508129055 / 4503599627370496 * 10 - (13 :: real)\<bar> \<le> 1 / 2 \<and>
   fst (adjust_portion [rice_meal] \<lparr>PortionAdjustment.meal_id = ''m1'', new_portion_size = Fin 33\<rparr>) =
     Inr \<lparr>new_portion = Fin 33, new_calories = Fin 66,
          new_protein = Fin (5854679515581645 / 4503599627370496),
          new_carbs = Fin (29 / 2),
          new_fats = Fin (5404319552844595 / 18014398509481984)\<rparr> \<and>
   find_one (\<lambda>m. meal_id m = ''m1'')
       (snd (adjust_portion [rice_meal]
               \<lparr>PortionAdjustment.meal_id = ''m1'', new_portion_size = Fin 33\<rparr>)) =
     Some (rice_meal\<lparr>portion_size := Fin 33, calories := Fin 66,
                      protein := Fin (5854679515581645 / 4503599627370496),
                      carbs := Fin (29 / 2),
                      fats := Fin (5404319552844595 / 18014398509481984)\<rparr>)"
  using adjust_portion_scales
    [where adj = "\<lparr>PortionAdjustment.meal_id = ''m1'', new_portion_size = Fin 33\<rparr>"
       and meals = "[rice_meal]" and meal = rice_meal and n = 33 and p = 100
       and ratio = "Fin (5944751508129055 / 18014398509481984)"]
  by (simp add: rice_meal_def float_eval)

text \<open>
  C5 (as amended).  When the meal of an adjustment request exists and its stored
  \<open>portion_size\<close> is zero, the request fails with the handler's generic error: status 500,
  the detail being the text of the \<^verbatim>\<open>ZeroDivisionError\<close>.  That is an error response and not
  a crash, and an \<open>UpstreamFailure\<close> in the terms of the specification.  The collection is
  left as it was.
\<close>

theorem adjust_portion_zero_portion:
  "find_one (\<lambda>m. meal_id m = PortionAdjustment.meal_id adj) meals = Some meal \<and>
   portion_size meal = Fin 0 \<longrightarrow>
     adjust_portion meals adj = (Inl (HTTPException 500 (StrOf ZeroDivisionError)), meals) \<and>
     spec_error_kind (HTTPException 500 (StrOf ZeroDivisionError)) = UpstreamFailure"
  by (simp add: adjust_portion_def spec_error_kind_def)

theorem adjust_portion_zero_portion_witness:
  "find_one (\<lambda>m. meal_id m = ''m0'') [rice_meal, empty_plate] = Some empty_plate \<and>
   portion_size empty_plate = Fin 0 \<and>
   adjust_portion [rice_meal, empty_plate]
       \<lparr>PortionAdjustment.meal_id = ''m0'', new_portion_size = Fin 150\<rparr> =
     (Inl (HTTPException 500 (StrOf ZeroDivisionError)), [rice_meal, empty_plate])"
  using adjust_portion_zero_portion
    [where adj = "\<lparr>PortionAdjustment.meal_id = ''m0'', new_portion_size = Fin 150\<rparr>"
       and meals = "[rice_meal, empty_plate]" and meal = empty_plate]
  by (simp add: rice_meal_def empty_plate_def)

text \<open>
  The claim as the specification states it asks for a \<open>ValidationFailure\<close>; the error is
  not of that kind.
\<close>

theorem adjust_portion_zero_not_validation:
  "find_one (\<lambda>m. meal_id m = ''m0'') [empty_plate] = Some empty_plate \<and>
   portion_size empty_plate = Fin 0 \<and>
   fst (adjust_portion [empty_plate]
          \<lparr>PortionAdjustment.meal_id = ''m0'', new_portion_size = Fin 150\<rparr>) =
     Inl (HTTPException 500 (StrOf ZeroDivisionError)) \<and>
   spec_error_kind (HTTPException 500 (StrOf ZeroDivisionError)) \<noteq> ValidationFailure"
  by (simp add: adjust_portion_def rice_meal_def empty_plate_def spec_error_kind_def)

section \<open>Profile writes\<close>

lemma find_one_upsert:
  assumes "P d"
  shows "find_one P (update_one_upsert P (\<lambda>x. d) d ds) = Some d"
proof (cases "find_one P ds")
  case None
  have "find_one P (xs @ [d]) = Some d" if "find_one P xs = None" for xs
    using that assms by (induction xs) (auto split: if_splits)
  then show ?thesis using None by (simp add: update_one_upsert_def)
next
  case (Some m)
  then show ?thesis
    using find_one_update_one [of P ds m "\<lambda>x. d"] assms by (simp add: update_one_upsert_def)
qed

text \<open>
  C6 (as amended).  After every profile write the document stored under the profile's
  \<open>user_id\<close> carries as \<open>daily_calorie_goal\<close> the value that the BMR, TDEE and goal
  functions compute from the submitted weight, height, age, gender, activity level and
  goal weight, rounded to a whole number (\<^verbatim>\<open>round(daily_goal, 0)\<close>).  The value the caller
  supplied in the request plays no part: the whole outcome is the same for every supplied
  value.  When the computation raises, the request fails with status 500 and nothing is
  written.
\<close>

theorem create_or_update_profile_goal:
  "(calculate_bmr (weight p) (height p) (age p) (gender p) = Inr bmr \<longrightarrow>
      (\<exists>response. fst (create_or_update_profile users now p) = Inr response) \<and>
      stored_profile (snd (create_or_update_profile users now p)) (UserProfile.user_id p) =
        Some (p\<lparr>daily_calorie_goal :=
                    Some (py_round (calculate_daily_calorie_goal
                                      (calculate_tdee bmr (activity_level p))
                                      (weight p) (goal_weight p)) 0),
                 UserProfile.created_at := Some now\<rparr>)) \<and>
   (calculate_bmr (weight p) (height p) (age p) (gender p) = Inl exc \<longrightarrow>
      create_or_update_profile users now p = (Inl (HTTPException 500 (StrOf exc)), users)) \<and>
   create_or_update_profile users now (p\<lparr>daily_calorie_goal := supplied\<rparr>) =
     create_or_update_profile users now p"
  by (cases "calculate_bmr (weight p) (height p) (age p) (gender p)")
    (simp_all add: create_or_update_profile_def Let_def stored_profile_def find_one_upsert)

lemma ana_bmr:
  "calculate_bmr (Fin 70) (Fin 175) 30 ''masculino'' = Inr (Fin (7457622333344187 / 4398046511104))"
  by (simp add: calculate_bmr_def lower_masculino float_eval)

lemma ana_goal:
  "calculate_daily_calorie_goal
     (calculate_tdee (Fin (7457622333344187 / 4398046511104)) ''sedentario'') (Fin 70) (Fin 70)
   = Fin (279660837500407 / 137438953472)"
  by (simp add: calculate_daily_calorie_goal_def calculate_tdee_def dict_get_def
      activity_multipliers_def lower_def lower_char_def fgt_def float_eval)

lemma ana_goal_rounded: "py_round (Fin (279660837500407 / 137438953472)) 0 = Fin 2035"
  by (simp add: float_eval)

theorem create_or_update_profile_goal_witness:
  "calculate_bmr (weight ana) (height ana) (age ana) (gender ana)
     = Inr (Fin (7457622333344187 / 4398046511104)) \<and>
   stored_profile (snd (create_or_update_profile [] 7 ana)) ''u1'' =
     Some (ana\<lparr>daily_calorie_goal := Some (Fin 2035), UserProfile.created_at := Some 7\<rparr>) \<and>
   create_or_update_profile [] 7 (ana\<lparr>daily_calorie_goal := None\<rparr>) =
     create_or_update_profile [] 7 ana"
  using create_or_update_profile_goal
    [where p = ana and bmr = "Fin (7457622333344187 / 4398046511104)" and users = "[]"
       and now = 7 and supplied = None]
    ana_bmr ana_goal ana_goal_rounded
  by (simp add: ana_def)

text \<open>
  The claim as the specification states it has the stored value equal to the computed
  goal itself.  For the profile \<open>ana\<close> the computed goal is 2034.8004 and the stored value
  is 2035.
\<close>

theorem create_or_update_profile_stores_rounded:
  "calculate_bmr (weight ana) (height ana) (age ana) (gender ana)
     = Inr (Fin (7457622333344187 / 4398046511104)) \<and>
   calculate_daily_calorie_goal
     (calculate_tdee (Fin (7457622333344187 / 4398046511104)) (activity_level ana))
     (weight ana) (goal_weight ana) = Fin (279660837500407 / 137438953472) \<and>
   map_option daily_calorie_goal (stored_profile (snd (create_or_update_profile [] 7 ana)) ''u1'')
     = Some (Some (Fin 2035)) \<and>
   Fin 2035 \<noteq> Fin (279660837500407 / 137438953472)"
  using ana_bmr ana_goal ana_goal_rounded
  by (simp add: ana_def create_or_update_profile_def Let_def stored_profile_def
      update_one_upsert_def)

section \<open>Meal history\<close>

lemma add_meal_group_of:
  "add_meal m (group_of ms (date m)) = group_of (ms @ [m]) (date m)"
  by (simp add: add_meal_def group_of_def Let_def)

lemma add_meal_new_group:
  "date m \<notin> date ` set ms \<Longrightarrow> add_meal m (new_group (date m)) = group_of (ms @ [m]) (date m)"
proof -
  assume "date m \<notin> date ` set ms"
  then have "\<And>x. x \<in> set ms \<Longrightarrow> date x \<noteq> date m"
    by (metis image_eqI)
  then have "filter (\<lambda>x. date x = date m) ms = []"
    by (simp add: filter_empty_conv)
  then show ?thesis
    by (simp add: add_meal_def new_group_def group_of_def Let_def)
qed

lemma group_of_other:
  "d \<noteq> date m \<Longrightarrow> group_of (ms @ [m]) d = group_of ms d"
  by (simp add: group_of_def Let_def)

lemma history_fold:
  "distinct (map fst (foldl history_step [] ms)) \<and>
   (\<forall>d. map_of (foldl history_step [] ms) d =
          (if d \<in> date ` set ms then Some (group_of ms d) else None))"
proof (induction ms rule: rev_induct)
  case Nil
  show ?case by simp
next
  case (snoc m ms)
  define h where "h = foldl history_step [] ms"
  have dist: "distinct (map fst h)"
    and look: "\<And>d. map_of h d = (if d \<in> date ` set ms then Some (group_of ms d) else None)"
    using snoc by (simp_all add: h_def)
  have "dom (map_of h) = date ` set ms"
    using look by (auto simp: dom_def split: if_splits)
  then have keys: "fst ` set h = date ` set ms"
    by (simp add: dom_map_of_conv_image_fst)
  show ?case
  proof (cases "date m \<in> date ` set ms")
    case True
    then have step: "history_step h m = AList.map_entry (date m) (add_meal m) h"
      by (simp add: history_step_def Let_def look)
    have "distinct (map fst (history_step h m))"
      unfolding step using dist by (rule distinct_map_entry)
    moreover have "map_of (history_step h m) d =
        (if d \<in> date ` set (ms @ [m]) then Some (group_of (ms @ [m]) d) else None)" for d
      unfolding step using True
      by (auto simp: map_of_map_entry look add_meal_group_of group_of_other)
    ultimately show ?thesis by (simp add: h_def [symmetric])
  next
    case False
    then have step: "history_step h m =
        AList.map_entry (date m) (add_meal m) (h @ [(date m, new_group (date m))])"
      by (simp add: history_step_def Let_def look)
    have d2: "distinct (map fst (h @ [(date m, new_group (date m))]))"
      using dist False keys by auto
    have "distinct (map fst (history_step h m))"
      unfolding step using d2 by (rule distinct_map_entry)
    moreover have "map_of (history_step h m) d =
        (if d \<in> date ` set (ms @ [m]) then Some (group_of (ms @ [m]) d) else None)" for d
      unfolding step using False
      by (auto simp: map_of_map_entry look map_add_def add_meal_new_group group_of_other
               split: option.splits)
    ultimately show ?thesis by (simp add: h_def [symmetric])
  qed
qed

lemma group_history_groups:
  "distinct (map group_date (group_history ms)) \<and>
   group_date ` set (group_history ms) = date ` set ms \<and>
   (\<forall>g \<in> set (group_history ms). g = group_of ms (group_date g))"
proof -
  define h where "h = foldl history_step [] ms"
  have dist: "distinct (map fst h)"
    and look: "\<And>d. map_of h d = (if d \<in> date ` set ms then Some (group_of ms d) else None)"
    using history_fold [of ms] by (simp_all add: h_def)
  have entry: "g = group_of ms d \<and> d \<in> date ` set ms" if "(d, g) \<in> set h" for d g
  proof -
    have "map_of h d = Some g" using that dist by simp
    then show ?thesis using look [of d] by (auto split: if_splits)
  qed
  have gd: "group_date (group_of ms d) = d" for d
    by (simp add: group_of_def Let_def)
  have "\<forall>p \<in> set h. group_date (snd p) = fst p"
    using entry gd by (metis prod.collapse)
  then have same: "map group_date (map snd h) = map fst h"
    by simp
  have "dom (map_of h) = date ` set ms"
    using look by (auto simp: dom_def split: if_splits)
  then have keys: "fst ` set h = date ` set ms"
    by (simp add: dom_map_of_conv_image_fst)
  have "distinct (map group_date (group_history ms))"
    unfolding group_history_def h_def [symmetric] same by (rule dist)
  moreover have "group_date ` set (group_history ms) = date ` set ms"
    using same keys unfolding group_history_def h_def [symmetric]
    by (metis list.set_map)
  moreover have "\<forall>g \<in> set (group_history ms). g = group_of ms (group_date g)"
  proof
    fix g assume "g \<in> set (group_history ms)"
    then obtain d where "(d, g) \<in> set h"
      unfolding group_history_def h_def [symmetric] by auto
    then have "g = group_of ms d" using entry by blast
    then show "g = group_of ms (group_date g)" using gd by metis
  qed
  ultimately show ?thesis by blast
qed

text \<open>
  C9.  For every user, the history groups the retrieved meals by the date string as it is
  stored: the groups have pairwise different date strings, every date string of a
  retrieved meal has its group, and each group holds exactly the retrieved meals with
  literally that string, with the sums over exactly these.  Two meals dated
  \<open>''2024-01-01''\<close> and \<open>''2024-01-1''\<close> end up in two groups.  A sum is the sum of the
  floats: of the three meals \<open>toast\<close>, \<open>jan_one\<close> and \<open>butter\<close>, the two dated
  \<open>''2024-01-01''\<close> form one group with 80 + 72 = 152 calories, 0.1 + 0.2 =
  0.30000000000000004 of protein, 15 of carbohydrates and 0.7 + 8 = 8.7 of fats, and the
  meal dated \<open>''2024-01-1''\<close> forms the other with its own values.
\<close>

theorem get_meal_history_groups_by_date_string:
  "(let retrieved = query_recent_meals meals uid days;
        history = get_meal_history meals uid days
    in distinct (map group_date history) \<and>
       group_date ` set history = date ` set retrieved \<and>
       (\<forall>g \<in> set history. g = group_of retrieved (group_date g))) \<and>
   get_meal_history [jan_first, jan_one] ''u1'' 7 =
     [\<lparr>group_date = ''2024-01-1'', group_meals = [jan_one], total_calories = Fin 120,
       total_protein = Fin 4, total_carbs = Fin 44, total_fats = Fin 1\<rparr>,
      \<lparr>group_date = ''2024-01-01'', group_meals = [jan_first], total_calories = Fin 250,
       total_protein = Fin 4, total_carbs = Fin 44, total_fats = Fin 1\<rparr>] \<and>
   get_meal_history [toast, jan_one, butter] ''u1'' 7 =
     [\<lparr>group_date = ''2024-01-1'', group_meals = [jan_one], total_calories = Fin 120,
       total_protein = Fin 4, total_carbs = Fin 44, total_fats = Fin 1\<rparr>,
      \<lparr>group_date = ''2024-01-01'', group_meals = [toast, butter], total_calories = Fin 152,
       total_protein = Fin (1351079888211149 / 4503599627370496), total_carbs = Fin 15,
       total_fats = Fin (2448832297382707 / 281474976710656)\<rparr>]"
proof (intro conjI)
  show "let retrieved = query_recent_meals meals uid days;
        history = get_meal_history meals uid days
    in distinct (map group_date history) \<and>
       group_date ` set history = date ` set retrieved \<and>
       (\<forall>g \<in> set history. g = group_of retrieved (group_date g))"
    unfolding Let_def get_meal_history_def by (rule group_history_groups)
next
  have q: "query_recent_meals [jan_first, jan_one] ''u1'' 7 = [jan_one, jan_first]"
    by (simp add: query_recent_meals_def limit_docs_def sort_desc_def jan_first_def jan_one_def
        rice_meal_def)
  show "get_meal_history [jan_first, jan_one] ''u1'' 7 =
     [\<lparr>group_date = ''2024-01-1'', group_meals = [jan_one], total_calories = Fin 120,
       total_protein = Fin 4, total_carbs = Fin 44, total_fats = Fin 1\<rparr>,
      \<lparr>group_date = ''2024-01-01'', group_meals = [jan_first], total_calories = Fin 250,
       total_protein = Fin 4, total_carbs = Fin 44, total_fats = Fin 1\<rparr>]"
    unfolding get_meal_history_def q
    by (simp add: group_history_def history_step_def new_group_def add_meal_def
        jan_first_def jan_one_def rice_meal_def float_eval)
next
  have q: "query_recent_meals [toast, jan_one, butter] ''u1'' 7 = [jan_one, toast, butter]"
    by (simp add: query_recent_meals_def limit_docs_def sort_desc_def toast_def butter_def
        jan_one_def rice_meal_def)
  show "get_meal_history [toast, jan_one, butter] ''u1'' 7 =
     [\<lparr>group_date = ''2024-01-1'', group_meals = [jan_one], total_calories = Fin 120,
       total_protein = Fin 4, total_carbs = Fin 44, total_fats = Fin 1\<rparr>,
      \<lparr>group_date = ''2024-01-01'', group_meals = [toast, butter], total_calories = Fin 152,
       total_protein = Fin (1351079888211149 / 4503599627370496), total_carbs = Fin 15,
       total_fats = Fin (2448832297382707 / 281474976710656)\<rparr>]"
    unfolding get_meal_history_def q
    by (simp add: group_history_def history_step_def new_group_def add_meal_def
        jan_one_def toast_def butter_def rice_meal_def float_eval)
qed

theorem get_meal_history_groups_by_date_string_witness:
  "query_recent_meals [toast, jan_one, butter] ''u1'' 7 = [jan_one, toast, butter] \<and>
   get_meal_history [toast, jan_one, butter] ''u1'' 7 =
     [group_of [jan_one, toast, butter] ''2024-01-1'',
      group_of [jan_one, toast, butter] ''2024-01-01''] \<and>
   group_of [jan_one, toast, butter] ''2024-01-1'' =
     \<lparr>group_date = ''2024-01-1'', group_meals = [jan_one], total_calories = Fin 120,
      total_protein = Fin 4, total_carbs = Fin 44, total_fats = Fin 1\<rparr> \<and>
   group_of [jan_one, toast, butter] ''2024-01-01'' =
     \<lparr>group_date = ''2024-01-01'', group_meals = [toast, butter], total_calories = Fin 152,
      total_protein = Fin (1351079888211149 / 4503599627370496), total_carbs = Fin 15,
      total_fats = Fin (2448832297382707 / 281474976710656)\<rparr> \<and>
   protein toast = Fin (3602879701896397 / 36028797018963968) \<and>
   protein butter = Fin (3602879701896397 / 18014398509481984) \<and>
   ''2024-01-1'' \<noteq> ''2024-01-01''"
  using get_meal_history_groups_by_date_string [of "[toast, jan_one, butter]" "''u1''" 7]
  by (simp add: query_recent_meals_def limit_docs_def sort_desc_def group_of_def
      jan_one_def toast_def butter_def rice_meal_def float_eval)

lemma set_insert_desc [simp]: "set (insert_desc key d xs) = insert d (set xs)"
  by (induction xs) auto

lemma length_insert_desc [simp]: "length (insert_desc key d xs) = Suc (length xs)"
  by (induction xs) auto

lemma sorted_insert_desc:
  "sorted_wrt (\<lambda>a b. key b \<le> key a) xs \<Longrightarrow> sorted_wrt (\<lambda>a b. key b \<le> key a) (insert_desc key d xs)"
  by (induction xs) auto

lemma set_sort_desc [simp]: "set (sort_desc key xs) = set xs"
  by (induction xs) (simp_all add: sort_desc_def)

lemma length_sort_desc [simp]: "length (sort_desc key xs) = length xs"
  by (induction xs) (simp_all add: sort_desc_def)

lemma sorted_sort_desc: "sorted_wrt (\<lambda>a b. key b \<le> key a) (sort_desc key xs)"
  by (induction xs) (simp_all add: sort_desc_def sorted_insert_desc)

lemma sorted_take_drop:
  assumes "sorted_wrt R xs"
  shows "sorted_wrt R (take n xs) \<and> (\<forall>a \<in> set (take n xs). \<forall>b \<in> set (drop n xs). R a b)"
proof -
  have "sorted_wrt R (take n xs @ drop n xs)" using assms by simp
  then show ?thesis unfolding sorted_wrt_append by blast
qed

text \<open>
  The cap that line 349 builds.  For a day count \<open>N \<ge> 1\<close> the query retrieves the first
  \<open>N * 10\<close> meals of the user in descending order of the date string, so that no meal left
  out has a greater date string than a retrieved one.  No calendar date enters: when the
  user has at most \<open>N * 10\<close> meals all of them are retrieved however old they are
  (\<open>old_meal\<close>, dated 1999, is retrieved with \<open>N = 1\<close>), and when the user has more, exactly
  \<open>N * 10\<close> are retrieved, so that meals of the most recent date can be absent (of eleven
  meals of one day, ten are retrieved with \<open>N = 1\<close>).
\<close>

lemma query_recent_meals_cap:
  assumes d: "1 \<le> days"
  shows "query_recent_meals meals uid days =
        take (nat (days * 10)) (sort_desc date (filter (\<lambda>m. user_id m = uid) meals))"
    and "int (length (query_recent_meals meals uid days)) \<le> days * 10"
    and "sorted_wrt (\<lambda>a b. date b \<le> date a) (query_recent_meals meals uid days)"
    and "\<forall>a \<in> set (query_recent_meals meals uid days).
         \<forall>b \<in> set (drop (nat (days * 10)) (sort_desc date (filter (\<lambda>m. user_id m = uid) meals))).
           date b \<le> date a"
    and "int (length (filter (\<lambda>m. user_id m = uid) meals)) \<le> days * 10 \<Longrightarrow>
         set (query_recent_meals meals uid days) = set (filter (\<lambda>m. user_id m = uid) meals)"
    and "days * 10 < int (length (filter (\<lambda>m. user_id m = uid) meals)) \<Longrightarrow>
         int (length (query_recent_meals meals uid days)) = days * 10"
proof -
  define mine where "mine = sort_desc date (filter (\<lambda>m. user_id m = uid) meals)"
  have q: "query_recent_meals meals uid days = take (nat (days * 10)) mine"
    using d by (simp add: query_recent_meals_def limit_docs_def mine_def)
  show "query_recent_meals meals uid days =
        take (nat (days * 10)) (sort_desc date (filter (\<lambda>m. user_id m = uid) meals))"
    using q by (simp add: mine_def)
  show "int (length (query_recent_meals meals uid days)) \<le> days * 10"
    unfolding q using d by simp
  have s: "sorted_wrt (\<lambda>a b. date b \<le> date a) mine"
    unfolding mine_def by (rule sorted_sort_desc)
  show "sorted_wrt (\<lambda>a b. date b \<le> date a) (query_recent_meals meals uid days)"
    unfolding q using sorted_take_drop [OF s] by blast
  show "\<forall>a \<in> set (query_recent_meals meals uid days).
         \<forall>b \<in> set (drop (nat (days * 10)) (sort_desc date (filter (\<lambda>m. user_id m = uid) meals))).
           date b \<le> date a"
    unfolding q using sorted_take_drop [OF s, of "nat (days * 10)"] by (simp add: mine_def)
  show "set (query_recent_meals meals uid days) = set (filter (\<lambda>m. user_id m = uid) meals)"
    if "int (length (filter (\<lambda>m. user_id m = uid) meals)) \<le> days * 10"
  proof -
    have "length mine \<le> nat (days * 10)" using that by (simp add: mine_def)
    then show ?thesis unfolding q by (simp add: mine_def)
  qed
  show "int (length (query_recent_meals meals uid days)) = days * 10"
    if "days * 10 < int (length (filter (\<lambda>m. user_id m = uid) meals))"
    unfolding q using that d by (simp add: mine_def)
qed

lemma query_recent_meals_examples:
  "query_recent_meals (replicate 11 rice_meal) ''u1'' 1 = replicate 10 rice_meal \<and>
   query_recent_meals [old_meal, rice_meal] ''u1'' 1 = [rice_meal, old_meal]"
  by (simp add: query_recent_meals_def limit_docs_def sort_desc_def rice_meal_def old_meal_def
      numeral_eq_Suc)


section \<open>The response normalizer\<close>

lemmas strip_eval = strip_def rstrip_def lstrip_def space_len_def spaces_def startswith_def

lemma startswith_iff: "startswith s p \<longleftrightarrow> (\<exists>r. s = p @ r)"
proof
  assume "startswith s p"
  then have "s = p @ drop (length p) s"
    by (metis append_take_drop_id startswith_def)
  then show "\<exists>r. s = p @ r" ..
next
  assume "\<exists>r. s = p @ r"
  then show "startswith s p" by (auto simp: startswith_def)
qed

lemma remove_fences_first:
  assumes a: "startswith (remove_fences s) ''`''"
  shows "startswith s ''`''"
proof (cases s)
  case Nil
  then show ?thesis using a by (simp add: startswith_iff)
next
  case (Cons c cs)
  show ?thesis
  proof (cases "startswith (c # cs) ''```''")
    case True
    then show ?thesis unfolding Cons by (simp add: startswith_iff)
  next
    case False
    then have "\<not> startswith (c # cs) ''```json''"
      by (auto simp: startswith_iff)
    then have "remove_fences s = c # remove_fences cs"
      using False Cons by simp
    then show ?thesis using a Cons by (simp add: startswith_iff)
  qed
qed

lemma remove_fences_first_two:
  assumes a: "startswith (remove_fences s) ''``''"
  shows "startswith s ''``''"
proof (cases s)
  case Nil
  then show ?thesis using a by (simp add: startswith_iff)
next
  case (Cons c cs)
  show ?thesis
  proof (cases "startswith (c # cs) ''```''")
    case True
    then show ?thesis unfolding Cons by (auto simp: startswith_iff)
  next
    case False
    then have "\<not> startswith (c # cs) ''```json''"
      by (auto simp: startswith_iff)
    then have r: "remove_fences s = c # remove_fences cs"
      using False Cons by simp
    have c: "c = CHR 0x60" and "startswith (remove_fences cs) ''`''"
      using a unfolding r by (auto simp: startswith_iff)
    then have "startswith cs ''`''" using remove_fences_first by blast
    then show ?thesis using c Cons by (cases cs) (auto simp: startswith_iff)
  qed
qed

lemma no_fence_left: "\<not> has_fence (remove_fences s)"
proof (induction s rule: remove_fences.induct)
  case 1
  show ?case by simp
next
  case (2 c cs)
  show ?case
  proof (cases "startswith (c # cs) ''```json''")
    case True
    then show ?thesis using 2 by simp
  next
    case nj: False
    show ?thesis
    proof (cases "startswith (c # cs) ''```''")
      case True
      then show ?thesis using 2 nj by simp
    next
      case False
      have r: "remove_fences (c # cs) = c # remove_fences cs"
        using False nj by simp
      have "\<not> startswith (c # remove_fences cs) ''```''"
      proof
        assume s: "startswith (c # remove_fences cs) ''```''"
        then have c: "c = CHR 0x60" and "startswith (remove_fences cs) ''``''"
          by (auto simp: startswith_iff)
        then have "startswith cs ''``''" using remove_fences_first_two by blast
        then have "startswith (c # cs) ''```''" using c by (auto simp: startswith_iff)
        then show False using False by simp
      qed
      then show ?thesis using 2 nj False unfolding r by simp
    qed
  qed
qed

lemma remove_fences_keeps:
  "CHR 0x60 \<notin> set tag \<Longrightarrow> remove_fences (tag @ rest) = tag @ remove_fences rest"
proof (induction tag)
  case Nil
  show ?case by simp
next
  case (Cons c tag)
  then have "c \<noteq> CHR 0x60" by auto
  then have "\<not> startswith (c # tag @ rest) ''```json''" "\<not> startswith (c # tag @ rest) ''```''"
    by (auto simp: startswith_iff)
  then show ?case using Cons by simp
qed

lemma lstrip_no_space: "space_len spaces s = 0 \<Longrightarrow> lstrip s = s"
  by (cases s) (simp_all add: lstrip_def)

lemma rice_json:
  \<open>json_loads ''{"food_name":"rice","calories":200}\<newline>'' =
     Inr (JObj [(''food_name'', JStr ''rice''), (''calories'', JInt 200)])\<close>
  by code_simp

lemma clean_fenced_rice:
  \<open>clean_text fenced_rice = ''{"food_name":"rice","calories":200}\<newline>''\<close>
  by (simp add: clean_text_def fenced_rice_def strip_eval)

lemma clean_padded_rice:
  \<open>clean_text padded_rice = ''{"food_name":"rice","calories":200}\<newline>''\<close>
  by (simp add: clean_text_def padded_rice_def strip_eval)

lemma clean_fenced_python:
  \<open>clean_text fenced_python = ''python\<newline>{"food_name":"rice","calories":200}\<newline>''\<close>
  by (simp add: clean_text_def fenced_python_def strip_eval)

lemma python_json:
  \<open>json_loads ''python\<newline>{"food_name":"rice","calories":200}\<newline>'' = Inl JSONDecodeError\<close>
  by code_simp

lemma normalize_parsed_object: "normalize_parsed line_176 (JObj d) = Inr (JObj d)"
  by (simp add: normalize_parsed_def)

text \<open>
  C4 (as amended).  For every reply that begins with three backticks once its surrounding
  whitespace is stripped, the text handed to the JSON parser is the stripped reply with
  every run of three backticks removed, wherever it stands: no three backticks in a row
  are left.  With each such marker go the tag \<^verbatim>\<open>json\<close>, when it follows the backticks
  directly, and the whitespace after it.  The fenced reply of the specification parses to
  the record with \<open>food_name\<close> rice and \<open>calories\<close> 200, and so does the same reply with a
  no-break space before it, an ideographic space after the tag and a no-break space and
  a newline after it.  Any other language tag is not part of the marker: a tag that does
  not begin with \<^verbatim>\<open>json\<close> or with whitespace and holds no backtick stays in the text as it
  is, before whatever the rest of the text becomes.  With the tag \<^verbatim>\<open>python\<close> the text
  handed to the parser begins with \<^verbatim>\<open>python\<close>, the parser rejects it and the analysis ends
  in the status 500.
\<close>

theorem clean_text_removes_fences:
  \<open>(startswith (strip text) ''```'' \<longrightarrow>
      clean_text text = remove_fences (strip text) \<and> \<not> has_fence (clean_text text)) \<and>
   remove_fences (''```json'' @ rest) = remove_fences (lstrip rest) \<and>
   (\<not> startswith rest ''json'' \<longrightarrow>
      remove_fences (''```'' @ rest) = remove_fences (lstrip rest)) \<and>
   (\<not> startswith (tag @ after) ''json'' \<and> space_len spaces (tag @ after) = 0 \<and>
    CHR 0x60 \<notin> set tag \<longrightarrow>
      remove_fences (''```'' @ tag @ after) = tag @ remove_fences after) \<and>
   normalize_response line_176 (RText fenced_rice) =
     Inr (JObj [(''food_name'', JStr ''rice''), (''calories'', JInt 200)]) \<and>
   normalize_response line_176 (RText padded_rice) =
     Inr (JObj [(''food_name'', JStr ''rice''), (''calories'', JInt 200)]) \<and>
   clean_text fenced_python = ''python\<newline>{"food_name":"rice","calories":200}\<newline>'' \<and>
   analyze_food_with_ai line_176 (Some ''key'') (Inr (RText fenced_python)) =
     Inl (HTTPException 500 (Prefixed ''Erro ao analisar alimento: '' JSONDecodeError))\<close>
proof (intro conjI impI)
  assume "startswith (strip text) ''```''"
  then show "clean_text text = remove_fences (strip text)"
    by (simp add: clean_text_def)
  then show "\<not> has_fence (clean_text text)"
    by (simp add: no_fence_left)
next
  show "remove_fences (''```json'' @ rest) = remove_fences (lstrip rest)"
    by (simp add: startswith_def)
next
  assume "\<not> startswith rest ''json''"
  then have "\<not> startswith (''```'' @ rest) ''```json''"
    by (auto simp: startswith_iff)
  then show "remove_fences (''```'' @ rest) = remove_fences (lstrip rest)"
    by (simp add: startswith_def)
next
  assume a: "\<not> startswith (tag @ after) ''json'' \<and> space_len spaces (tag @ after) = 0 \<and>
    CHR 0x60 \<notin> set tag"
  then have "\<not> startswith (''```'' @ tag @ after) ''```json''"
    by (auto simp: startswith_iff)
  then have "remove_fences (''```'' @ tag @ after) = remove_fences (lstrip (tag @ after))"
    by (simp add: startswith_def)
  also have "\<dots> = remove_fences (tag @ after)"
    using a by (simp add: lstrip_no_space)
  also have "\<dots> = tag @ remove_fences after"
    using a by (simp add: remove_fences_keeps)
  finally show "remove_fences (''```'' @ tag @ after) = tag @ remove_fences after" .
next
  show "normalize_response line_176 (RText fenced_rice) =
     Inr (JObj [(''food_name'', JStr ''rice''), (''calories'', JInt 200)])"
    by (simp add: normalize_response_def clean_fenced_rice rice_json normalize_parsed_object)
next
  show "normalize_response line_176 (RText padded_rice) =
     Inr (JObj [(''food_name'', JStr ''rice''), (''calories'', JInt 200)])"
    by (simp add: normalize_response_def clean_padded_rice rice_json normalize_parsed_object)
next
  show \<open>clean_text fenced_python = ''python\<newline>{"food_name":"rice","calories":200}\<newline>''\<close>
    by (rule clean_fenced_python)
next
  show "analyze_food_with_ai line_176 (Some ''key'') (Inr (RText fenced_python)) =
     Inl (HTTPException 500 (Prefixed ''Erro ao analisar alimento: '' JSONDecodeError))"
    by (simp add: analyze_food_with_ai_def normalize_response_def clean_fenced_python python_json)
qed

theorem clean_text_removes_fences_witness:
  \<open>startswith (strip padded_rice) ''```'' \<and>
   strip padded_rice =
     ''```json'' @ [CHR 0xE3, CHR 0x80, CHR 0x80] @ ''{"food_name":"rice","calories":200}\<newline>```'' \<and>
   clean_text padded_rice = ''{"food_name":"rice","calories":200}\<newline>'' \<and>
   \<not> has_fence (clean_text padded_rice) \<and>
   \<not> startswith ''python'' ''json'' \<and>
   remove_fences (''```'' @ ''python'') = ''python'' \<and>
   \<not> startswith (''python'' @ ''\<newline>{}\<newline>```'') ''json'' \<and>
   space_len spaces (''python'' @ ''\<newline>{}\<newline>```'') = 0 \<and>
   CHR 0x60 \<notin> set ''python'' \<and>
   remove_fences (''```'' @ ''python'' @ ''\<newline>{}\<newline>```'') = ''python\<newline>{}\<newline>''\<close>
  using clean_text_removes_fences [of padded_rice "''python''" "''python''" \<open>''\<newline>{}\<newline>```''\<close>]
    clean_padded_rice
  by (simp add: padded_rice_def strip_eval)

text \<open>
  The claim as the specification states it has every language tag removed so that the
  JSON parses.  With the tag \<^verbatim>\<open>python\<close> the tag is left before the JSON text, the parser
  rejects it, and the analysis fails with the status 500.
\<close>

theorem other_language_tag_not_removed:
  \<open>startswith (strip fenced_python) ''```'' \<and>
   clean_text fenced_python = ''python\<newline>{"food_name":"rice","calories":200}\<newline>'' \<and>
   normalize_response intended_176 (RText fenced_python) = Inl JSONDecodeError \<and>
   analyze_food_with_ai intended_176 (Some ''key'') (Inr (RText fenced_python)) =
     Inl (HTTPException 500 (Prefixed ''Erro ao analisar alimento: '' JSONDecodeError)) \<and>
   json_loads ''{"food_name":"rice","calories":200}\<newline>'' =
     Inr (JObj [(''food_name'', JStr ''rice''), (''calories'', JInt 200)])\<close>
  using clean_fenced_python python_json rice_json
  by (simp add: normalize_response_def analyze_food_with_ai_def fenced_python_def strip_eval)

lemma collect_as_dict: "collect as_dict (map JObj ds) = Inr ds"
  by (induction ds) (simp_all add: as_dict_def)

lemma collect_as_dict_fails:
  "x \<in> set items \<Longrightarrow> \<forall>d. x \<noteq> JObj d \<Longrightarrow> collect as_dict items = Inl AttributeError"
proof (induction items)
  case Nil
  then show ?case by simp
next
  case (Cons a items)
  show ?case
  proof (cases "as_dict a")
    case (Inl e)
    then have "e = AttributeError" by (auto simp: as_dict_def split: json.splits)
    then show ?thesis using Inl by simp
  next
    case (Inr d)
    then have "a = JObj d" by (auto simp: as_dict_def split: json.splits)
    then have "x \<in> set items" using Cons.prems by auto
    then show ?thesis using Cons Inr by simp
  qed
qed

lemma collect_as_str_fails:
  "x \<in> set vs \<Longrightarrow> \<forall>s. x \<noteq> JStr s \<Longrightarrow> collect as_str vs = Inl TypeError"
proof (induction vs)
  case Nil
  then show ?case by simp
next
  case (Cons a vs)
  show ?case
  proof (cases "as_str a")
    case (Inl e)
    then have "e = TypeError" by (auto simp: as_str_def split: json.splits)
    then show ?thesis using Inl by simp
  next
    case (Inr s)
    then have "a = JStr s" by (auto simp: as_str_def split: json.splits)
    then have "x \<in> set vs" using Cons.prems by auto
    then show ?thesis using Cons Inr by simp
  qed
qed

lemma add_num_not_number: "\<not> is_number v \<Longrightarrow> add_num acc v = Inl TypeError"
  by (cases acc; cases v) (simp_all add: is_number_def)

lemma sum_from_fails:
  "v \<in> set vs \<Longrightarrow> \<not> is_number v \<Longrightarrow> \<exists>e. sum_from acc vs = Inl e"
proof (induction vs arbitrary: acc)
  case Nil
  then show ?case by simp
next
  case (Cons a vs)
  show ?case
  proof (cases "add_num acc a")
    case (Inl e)
    then show ?thesis by simp
  next
    case (Inr acc')
    then have "a \<noteq> v" using Cons.prems add_num_not_number by fastforce
    then have "v \<in> set vs" using Cons.prems by simp
    then show ?thesis using Cons Inr by simp
  qed
qed

lemma sum_field_fails:
  assumes "d \<in> set ds" and "map_of d k = Some v" and "\<not> is_number v"
  shows "\<exists>e. sum_field k ds = Inl e"
proof -
  have "dict_get d k (JInt 0) = v"
    using assms by (simp add: dict_get_def)
  then have "v \<in> set (map (\<lambda>item. dict_get item k (JInt 0)) ds)"
    using assms by force
  then have "\<exists>e. sum_from (JInt 0) (map (\<lambda>item. dict_get item k (JInt 0)) ds) = Inl e"
    using assms(3) by (rule sum_from_fails)
  then show ?thesis
    by (simp add: sum_field_def py_sum_def)
qed

lemma and_then_case: "and_then m f = (case m of Inl e \<Rightarrow> Inl e | Inr x \<Rightarrow> f x)"
  by (cases m) simp_all

lemma merge_items_sum_fails:
  assumes "sum_field k ds = Inl e"
    and "k \<in> set [''portion_size'', ''calories'', ''protein'', ''carbs'', ''fats'']"
  shows "\<exists>e'. merge_items (map JObj ds) = Inl e'"
proof -
  consider "k = ''portion_size''" | "k = ''calories''" | "k = ''protein''" | "k = ''carbs''"
    | "k = ''fats''"
    using assms by auto
  then show ?thesis
  proof cases
    case 1
    then show ?thesis using assms(1)
      by (simp add: merge_items_def collect_as_dict and_then_case split: sum.splits)
  next
    case 2
    then show ?thesis using assms(1)
      by (simp add: merge_items_def collect_as_dict and_then_case split: sum.splits)
  next
    case 3
    then show ?thesis using assms(1)
      by (simp add: merge_items_def collect_as_dict and_then_case split: sum.splits)
  next
    case 4
    then show ?thesis using assms(1)
      by (simp add: merge_items_def collect_as_dict and_then_case split: sum.splits)
  next
    case 5
    then show ?thesis using assms(1)
      by (simp add: merge_items_def collect_as_dict and_then_case split: sum.splits)
  qed
qed

lemma merge_items_name_fails:
  assumes "d \<in> set ds" and "map_of d ''food_name'' = Some v" and "\<forall>s. v \<noteq> JStr s"
  shows "merge_items (map JObj ds) = Inl TypeError"
proof -
  have "dict_get d ''food_name'' (JStr []) = v"
    using assms by (simp add: dict_get_def)
  then have "v \<in> set (map (\<lambda>item. dict_get item ''food_name'' (JStr [])) ds)"
    using assms by force
  then have "collect as_str (map (\<lambda>item. dict_get item ''food_name'' (JStr [])) ds) = Inl TypeError"
    using assms by (intro collect_as_str_fails) simp_all
  then show ?thesis
    by (simp add: merge_items_def collect_as_dict)
qed

lemma sum_from_ints:
  "list_all (int_or_missing k) ds \<Longrightarrow>
   sum_from (JInt a) (map (\<lambda>item. dict_get item k (JInt 0)) ds) =
     Inr (JInt (a + sum_list (map (\<lambda>d. int_field d k) ds)))"
proof (induction ds arbitrary: a)
  case Nil
  show ?case by simp
next
  case (Cons d ds)
  then have d: "int_or_missing k d" and ds: "list_all (int_or_missing k) ds" by simp_all
  from d have "add_num (JInt a) (dict_get d k (JInt 0)) = Inr (JInt (a + int_field d k))"
    by (auto simp: int_or_missing_def dict_get_def int_field_def split: option.splits json.splits)
  then show ?case using Cons.IH [OF ds] by (simp add: add.assoc)
qed

lemma sum_field_ints:
  "list_all (int_or_missing k) ds \<Longrightarrow>
   sum_field k ds = Inr (JInt (sum_list (map (\<lambda>d. int_field d k) ds)))"
  using sum_from_ints [of k ds 0] by (simp add: sum_field_def py_sum_def)

lemma merge_items_objects:
  assumes "collect as_str (map (\<lambda>d. dict_get d ''food_name'' (JStr [])) ds) = Inr names"
    and "sum_field ''portion_size'' ds = Inr s1"
    and "sum_field ''calories'' ds = Inr s2"
    and "sum_field ''protein'' ds = Inr s3"
    and "sum_field ''carbs'' ds = Inr s4"
    and "sum_field ''fats'' ds = Inr s5"
  shows "merge_items (map JObj ds) =
     Inr (JObj (AList.update ''fats'' s5 (AList.update ''carbs'' s4 (AList.update ''protein'' s3
           (AList.update ''calories'' s2 (AList.update ''portion_size'' s1
           (AList.update ''food_name'' (JStr (join '' + '' names)) (hd ds))))))))"
  using assms by (simp add: merge_items_def collect_as_dict Let_def)

lemma two_foods_json: "json_loads two_foods = Inr (JArr [JObj food_a, JObj food_b])"
  unfolding two_foods_def food_a_def food_b_def by code_simp

lemma null_calories_json:
  "json_loads null_calories =
     Inr (JArr [JObj food_a, JObj [(''food_name'', JStr ''B''), (''calories'', JNull)]])"
  unfolding null_calories_def food_a_def by code_simp

lemma number_name_json:
  "json_loads (clean_text number_name) = Inr (JArr [JObj food_a, JObj food_seven])"
proof -
  have "clean_text number_name = number_name"
    by (simp add: clean_text_def number_name_def strip_eval)
  moreover have "json_loads number_name = Inr (JArr [JObj food_a, JObj food_seven])"
    unfolding number_name_def food_a_def food_seven_def by code_simp
  ultimately show ?thesis by simp
qed

lemma two_foods_merged:
  "normalize_parsed line_176 (JArr [JObj food_a, JObj food_b]) =
     Inr (JObj [(''food_name'', JStr ''A + B''), (''calories'', JInt 250),
                (''portion_size'', JInt 0), (''protein'', JInt 0), (''carbs'', JInt 0),
                (''fats'', JInt 0)])"
  by (simp add: normalize_parsed_def merge_items_def as_dict_def as_str_def dict_get_def
      sum_field_def py_sum_def food_a_def food_b_def Let_def)

lemma normalize_parsed_many:
  assumes "2 \<le> length items"
  shows "normalize_parsed line_176 (JArr items) = merge_items items"
proof -
  have "length items > 0" "length items > 1" using assms by linarith+
  then show ?thesis unfolding normalize_parsed_def by (simp only: json.case if_True)
qed

lemma analysis_error:
  assumes "json_loads (clean_text text) = Inr parsed"
    and "normalize_parsed line_176 parsed = Inl exc"
  shows "analyze_food_with_ai line_176 (Some (c # key)) (Inr (RText text)) =
     Inl (HTTPException 500 (Prefixed ''Erro ao analisar alimento: '' exc))"
  using assms by (simp add: analyze_food_with_ai_def normalize_response_def)

text \<open>
  C3 (as amended).  For a parsed reply that is an array of one element, the result is
  that element.  An array \<open>map JObj ds\<close> of two or more objects, in which every
  \<open>food_name\<close> that is present is a string and the five sums are defined, yields the
  first object with \<open>food_name\<close> replaced by all names joined with \<open>'' + ''\<close> (a missing
  name counts as the empty string) and \<open>portion_size\<close>, \<open>calories\<close>, \<open>protein\<close>, \<open>carbs\<close>,
  \<open>fats\<close> replaced by the sum of that field over all elements, a missing field counting as
  0; when the values of a field are integers the sum is their sum as integers.  Two
  items with calories 100 and 150 merge to 250 under the name \<open>''A + B''\<close>.

  In an array of two or more elements, an element that is not an object makes the
  normalizer fail with \<^verbatim>\<open>AttributeError\<close>; among objects, a \<open>food_name\<close> that is present
  and not a string makes it fail with \<^verbatim>\<open>TypeError\<close>, and a value that is present under
  one of the five fields and is not a number (\<^verbatim>\<open>null\<close>, a string, an array, an object)
  makes it fail too.  Whatever exception the normalizer fails with on the parsed reply,
  the analysis returns it as the status 500 with the prefix of line 184.

  The empty array is the branch of line 176 and is left out: every statement here holds
  for each outcome \<open>line_176\<close> of that line.
\<close>

theorem normalize_parsed_array:
  "normalize_parsed line_176 (JArr [x]) = Inr x \<and>
   (2 \<le> length ds \<and>
    collect as_str (map (\<lambda>d. dict_get d ''food_name'' (JStr [])) ds) = Inr names \<and>
    sum_field ''portion_size'' ds = Inr s1 \<and>
    sum_field ''calories'' ds = Inr s2 \<and>
    sum_field ''protein'' ds = Inr s3 \<and>
    sum_field ''carbs'' ds = Inr s4 \<and>
    sum_field ''fats'' ds = Inr s5 \<longrightarrow>
      (\<exists>r. normalize_parsed line_176 (JArr (map JObj ds)) = Inr (JObj r) \<and>
           map_of r = (map_of (hd ds))
             (''food_name'' \<mapsto> JStr (join '' + '' names), ''portion_size'' \<mapsto> s1,
              ''calories'' \<mapsto> s2, ''protein'' \<mapsto> s3, ''carbs'' \<mapsto> s4, ''fats'' \<mapsto> s5))) \<and>
   (list_all (int_or_missing k) ds \<longrightarrow>
      sum_field k ds = Inr (JInt (sum_list (map (\<lambda>d. int_field d k) ds)))) \<and>
   (2 \<le> length items \<and> y \<in> set items \<and> (\<forall>d. y \<noteq> JObj d) \<longrightarrow>
      normalize_parsed line_176 (JArr items) = Inl AttributeError) \<and>
   (2 \<le> length ns \<and> n \<in> set ns \<and> map_of n ''food_name'' = Some v \<and> (\<forall>s. v \<noteq> JStr s) \<longrightarrow>
      normalize_parsed line_176 (JArr (map JObj ns)) = Inl TypeError) \<and>
   (2 \<le> length fs \<and> f \<in> set fs \<and>
    field \<in> set [''portion_size'', ''calories'', ''protein'', ''carbs'', ''fats''] \<and>
    map_of f field = Some w \<and> \<not> is_number w \<longrightarrow>
      (\<exists>e. normalize_parsed line_176 (JArr (map JObj fs)) = Inl e)) \<and>
   (json_loads (clean_text reply) = Inr parsed \<and> normalize_parsed line_176 parsed = Inl exc \<longrightarrow>
      analyze_food_with_ai line_176 (Some (c # key)) (Inr (RText reply)) =
        Inl (HTTPException 500 (Prefixed ''Erro ao analisar alimento: '' exc))) \<and>
   normalize_response line_176 (RText two_foods) =
     Inr (JObj [(''food_name'', JStr ''A + B''), (''calories'', JInt 250),
                (''portion_size'', JInt 0), (''protein'', JInt 0), (''carbs'', JInt 0),
                (''fats'', JInt 0)])"
proof (intro conjI impI)
  show "normalize_parsed line_176 (JArr [x]) = Inr x"
    by (simp add: normalize_parsed_def)
next
  assume a: "2 \<le> length ds \<and>
    collect as_str (map (\<lambda>d. dict_get d ''food_name'' (JStr [])) ds) = Inr names \<and>
    sum_field ''portion_size'' ds = Inr s1 \<and>
    sum_field ''calories'' ds = Inr s2 \<and>
    sum_field ''protein'' ds = Inr s3 \<and>
    sum_field ''carbs'' ds = Inr s4 \<and>
    sum_field ''fats'' ds = Inr s5"
  then have "normalize_parsed line_176 (JArr (map JObj ds)) = merge_items (map JObj ds)"
    by (intro normalize_parsed_many) simp
  also have "\<dots> =
     Inr (JObj (AList.update ''fats'' s5 (AList.update ''carbs'' s4 (AList.update ''protein'' s3
           (AList.update ''calories'' s2 (AList.update ''portion_size'' s1
           (AList.update ''food_name'' (JStr (join '' + '' names)) (hd ds))))))))"
    using a by (intro merge_items_objects) simp_all
  finally show "\<exists>r. normalize_parsed line_176 (JArr (map JObj ds)) = Inr (JObj r) \<and>
           map_of r = (map_of (hd ds))
             (''food_name'' \<mapsto> JStr (join '' + '' names), ''portion_size'' \<mapsto> s1,
              ''calories'' \<mapsto> s2, ''protein'' \<mapsto> s3, ''carbs'' \<mapsto> s4, ''fats'' \<mapsto> s5)"
    by (simp add: update_conv')
next
  assume "list_all (int_or_missing k) ds"
  then show "sum_field k ds = Inr (JInt (sum_list (map (\<lambda>d. int_field d k) ds)))"
    by (rule sum_field_ints)
next
  assume a: "2 \<le> length items \<and> y \<in> set items \<and> (\<forall>d. y \<noteq> JObj d)"
  then have "collect as_dict items = Inl AttributeError"
    using collect_as_dict_fails by blast
  then show "normalize_parsed line_176 (JArr items) = Inl AttributeError"
    using a by (simp add: normalize_parsed_many merge_items_def)
next
  assume a: "2 \<le> length ns \<and> n \<in> set ns \<and> map_of n ''food_name'' = Some v \<and>
    (\<forall>s. v \<noteq> JStr s)"
  then have "merge_items (map JObj ns) = Inl TypeError"
    by (intro merge_items_name_fails [of n ns v]) simp_all
  then show "normalize_parsed line_176 (JArr (map JObj ns)) = Inl TypeError"
    using a by (simp add: normalize_parsed_many)
next
  assume a: "2 \<le> length fs \<and> f \<in> set fs \<and>
    field \<in> set [''portion_size'', ''calories'', ''protein'', ''carbs'', ''fats''] \<and>
    map_of f field = Some w \<and> \<not> is_number w"
  then obtain e where "sum_field field fs = Inl e"
    using sum_field_fails [of f fs field w] by blast
  then have "\<exists>e. merge_items (map JObj fs) = Inl e"
    using a by (intro merge_items_sum_fails [of field fs e]) simp_all
  then show "\<exists>e. normalize_parsed line_176 (JArr (map JObj fs)) = Inl e"
    using a by (simp add: normalize_parsed_many)
next
  assume "json_loads (clean_text reply) = Inr parsed \<and> normalize_parsed line_176 parsed = Inl exc"
  then have 1: "json_loads (clean_text reply) = Inr parsed"
    and 2: "normalize_parsed line_176 parsed = Inl exc"
    by blast+
  show "analyze_food_with_ai line_176 (Some (c # key)) (Inr (RText reply)) =
        Inl (HTTPException 500 (Prefixed ''Erro ao analisar alimento: '' exc))"
    using 1 2 by (rule analysis_error)
next
  show "normalize_response line_176 (RText two_foods) =
     Inr (JObj [(''food_name'', JStr ''A + B''), (''calories'', JInt 250),
                (''portion_size'', JInt 0), (''protein'', JInt 0), (''carbs'', JInt 0),
                (''fats'', JInt 0)])"
  proof -
    have "clean_text two_foods = two_foods"
      by (simp add: clean_text_def two_foods_def strip_eval)
    then show ?thesis
      by (simp add: normalize_response_def two_foods_json two_foods_merged)
  qed
qed

theorem normalize_parsed_array_witness:
  "normalize_parsed intended_176 (JArr [JObj food_a]) = Inr (JObj food_a) \<and>
   (2 :: nat) \<le> length [food_a, food_b] \<and>
   collect as_str (map (\<lambda>d. dict_get d ''food_name'' (JStr [])) [food_a, food_b]) = Inr [''A'', ''B''] \<and>
   sum_field ''portion_size'' [food_a, food_b] = Inr (JInt 0) \<and>
   sum_field ''calories'' [food_a, food_b] = Inr (JInt 250) \<and>
   list_all (int_or_missing ''calories'') [food_a, food_b] \<and>
   sum_list (map (\<lambda>d. int_field d ''calories'') [food_a, food_b]) = 250 \<and>
   normalize_parsed intended_176 (JArr (map JObj [food_a, food_b])) =
     Inr (JObj [(''food_name'', JStr ''A + B''), (''calories'', JInt 250),
                (''portion_size'', JInt 0), (''protein'', JInt 0), (''carbs'', JInt 0),
                (''fats'', JInt 0)]) \<and>
   (2 :: nat) \<le> length [JObj food_a, JInt 5] \<and>
   normalize_parsed intended_176 (JArr [JObj food_a, JInt 5]) = Inl AttributeError \<and>
   map_of food_seven ''food_name'' = Some (JInt 7) \<and>
   normalize_parsed intended_176 (JArr (map JObj [food_a, food_seven])) = Inl TypeError \<and>
   map_of food_null ''calories'' = Some JNull \<and>
   \<not> is_number JNull \<and>
   normalize_parsed intended_176 (JArr (map JObj [food_a, food_null])) = Inl TypeError \<and>
   json_loads (clean_text number_name) = Inr (JArr [JObj food_a, JObj food_seven]) \<and>
   analyze_food_with_ai intended_176 (Some ''key'') (Inr (RText number_name)) =
     Inl (HTTPException 500 (Prefixed ''Erro ao analisar alimento: '' TypeError))"
  using normalize_parsed_array
    [where ?line_176.0 = intended_176 and x = "JObj food_a"
       and ds = "[food_a, food_b]" and names = "[''A'', ''B'']" and k = "''calories''"
       and ?s1.0 = "JInt 0" and ?s2.0 = "JInt 250" and ?s3.0 = "JInt 0" and ?s4.0 = "JInt 0"
       and ?s5.0 = "JInt 0" and items = "[JObj food_a, JInt 5]" and y = "JInt 5"
       and ns = "[food_a, food_seven]" and n = food_seven and v = "JInt 7"
       and fs = "[food_a, food_null]" and f = food_null and field = "''calories''"
       and w = JNull and reply = number_name
       and parsed = "JArr [JObj food_a, JObj food_seven]" and exc = TypeError
       and c = "CHR ''k''" and key = "''ey''"]
    two_foods_merged [of intended_176] number_name_json
  by (simp add: as_str_def as_dict_def dict_get_def sum_field_def py_sum_def food_a_def food_b_def
      food_seven_def food_null_def int_or_missing_def int_field_def is_number_def
      normalize_parsed_def merge_items_def Let_def)

text \<open>
  The claim as the specification states it promises the merged record for every array of
  two or more elements.  A field that is present with the value \<^verbatim>\<open>null\<close> is not missing:
  the sum raises \<^verbatim>\<open>TypeError\<close> and the analysis fails with the status 500.
\<close>

theorem null_field_not_merged:
  "json_loads null_calories =
     Inr (JArr [JObj food_a, JObj [(''food_name'', JStr ''B''), (''calories'', JNull)]]) \<and>
   normalize_response intended_176 (RText null_calories) = Inl TypeError \<and>
   analyze_food_with_ai intended_176 (Some ''key'') (Inr (RText null_calories)) =
     Inl (HTTPException 500 (Prefixed ''Erro ao analisar alimento: '' TypeError))"
proof -
  have c: "clean_text null_calories = null_calories"
    by (simp add: clean_text_def null_calories_def strip_eval)
  have n: "normalize_response intended_176 (RText null_calories) = Inl TypeError"
    by (simp add: normalize_response_def c null_calories_json normalize_parsed_def
        merge_items_def as_dict_def as_str_def dict_get_def sum_field_def py_sum_def
        food_a_def Let_def)
  show ?thesis
    using n null_calories_json by (simp add: analyze_food_with_ai_def)
qed

end
